theory Spec2Isabelle
  imports Complex_Main "HOL-Library.Sublist"
begin

section \<open>Strings, errors and formatting\<close>

text \<open>
  A Python \<open>str\<close> is modelled by its UTF-8 encoding, a \<open>string\<close> of bytes. Concatenation,
  equality, emptiness and the substring relation of the code points are those of the
  encodings; no definition below takes the length of a string. The Chinese literals of the
  source are written as their bytes.

  Every exception the modelled code raises is a \<open>ValueError\<close>, \<open>KeyError\<close>,
  \<open>IndexError\<close> or \<open>TypeError\<close> carrying the text that \<open>str(e)\<close> gives.
\<close>

datatype error = ValueError string | KeyError string | IndexError string | TypeError string

fun str_of_error :: "error \<Rightarrow> string" where
  "str_of_error (ValueError s) = s"
| "str_of_error (KeyError s) = s"
| "str_of_error (IndexError s) = s"
| "str_of_error (TypeError s) = s"

definition digit_char :: "nat \<Rightarrow> char" where
  "digit_char d = char_of (48 + d)"

fun str_nat :: "nat \<Rightarrow> string" where
  "str_nat n = (if n < 10 then [digit_char n] else str_nat (n div 10) @ [digit_char (n mod 10)])"

declare str_nat.simps [simp del]

definition str_int :: "int \<Rightarrow> string" where
  "str_int i = (if i < 0 then ''-'' @ str_nat (nat (- i)) else str_nat (nat i))"

section \<open>The random generator\<close>

text \<open>
  The module-level generator of Python's \<open>random\<close> is a hidden state read by every call.
  It is modelled as a tape of raw numbers and the position of the next unread one.
  \<open>_randbelow(n)\<close> returns an integer in \<open>[0, n)\<close>: the next raw number modulo \<open>n\<close>.
  \<open>random()\<close> returns a multiple of \<open>2\<^sup>-\<^sup>5\<^sup>3\<close> in \<open>[0, 1)\<close>: the next raw number modulo
  \<open>2\<^sup>5\<^sup>3\<close>, divided by \<open>2\<^sup>5\<^sup>3\<close>. The float \<open>0.3\<close> and the fraction 3/10 lie between the same
  two neighbouring multiples of \<open>2\<^sup>-\<^sup>5\<^sup>3\<close>, so \<open>random() < 0.3\<close> is the comparison with 3/10.
\<close>

record rng =
  tape :: "nat \<Rightarrow> nat"
  pos :: nat

definition randbelow :: "nat \<Rightarrow> rng \<Rightarrow> nat \<times> rng" where
  "randbelow n g = (tape g (pos g) mod n, g\<lparr>pos := Suc (pos g)\<rparr>)"

definition random :: "rng \<Rightarrow> real \<times> rng" where
  "random g = (real (tape g (pos g) mod 2 ^ 53) / 2 ^ 53, g\<lparr>pos := Suc (pos g)\<rparr>)"

text \<open>
  A tape is fair for \<open>n\<close> when every value below \<open>n\<close> keeps coming up: from every position
  on, each residue modulo \<open>n\<close> is read again later. The rejection loop of \<open>random.sample\<close>
  ends on such a tape.
\<close>

definition fair :: "(nat \<Rightarrow> nat) \<Rightarrow> nat \<Rightarrow> bool" where
  "fair t n \<longleftrightarrow> (\<forall>p. \<forall>v<n. \<exists>q\<ge>p. t q mod n = v)"

section \<open>random.sample\<close>

text \<open>
  \<open>random.sample(population, k)\<close> of the standard library (Lib/random.py):
  \<^verbatim>\<open>
    n = len(population)
    if not 0 <= k <= n:
        raise ValueError("Sample larger than population or is negative")
    result = [None] * k
    setsize = 21
    if k > 5:
        setsize += 4 ** _ceil(_log(k * 3, 4))
    if n <= setsize:
        pool = list(population)
        for i in range(k):
            j = randbelow(n - i)
            result[i] = pool[j]
            pool[j] = pool[n - i - 1]
    else:
        selected = set()
        for i in range(k):
            j = randbelow(n)
            while j in selected:
                j = randbelow(n)
            selected.add(j)
            result[i] = population[j]
    return result
  \<close>
  \<open>4 ** ceil(log(m, 4))\<close> is the least power of four that is at least \<open>m\<close>.
\<close>

function pow4_ge :: "nat \<Rightarrow> nat \<Rightarrow> nat" where
  "pow4_ge p m = (if 0 < p \<and> p < m then pow4_ge (4 * p) m else p)"
  by pat_completeness auto
termination
  by (relation "measure (\<lambda>(p, m). m - p)") auto

declare pow4_ge.simps [simp del]

definition setsize :: "nat \<Rightarrow> nat" where
  "setsize k = (if k > 5 then 21 + pow4_ge 1 (k * 3) else 21)"

text \<open>
  The pool branch. \<open>sample_pool k m pool g\<close> runs the last \<open>k\<close> rounds of the loop, where
  \<open>m = n - i\<close> entries of the pool are still unselected; the results of the rounds are
  returned in order.
\<close>

fun sample_pool :: "nat \<Rightarrow> nat \<Rightarrow> 'a list \<Rightarrow> rng \<Rightarrow> 'a list \<times> rng" where
  "sample_pool 0 m pool g = ([], g)"
| "sample_pool (Suc k) m pool g =
     (let (j, g') = randbelow m g;
          (rest, g'') = sample_pool k (m - 1) (pool[j := pool ! (m - 1)]) g'
      in (pool ! j # rest, g''))"

text \<open>
  The selection-set branch. The inner \<open>while\<close> loop draws until the index is new; on a
  tape that never yields a new index it does not return (\<open>None\<close>).
\<close>

partial_function (option) draw_fresh :: "nat \<Rightarrow> nat set \<Rightarrow> rng \<Rightarrow> (nat \<times> rng) option" where
  "draw_fresh n selected g =
     (let (j, g') = randbelow n g
      in if j \<in> selected then draw_fresh n selected g' else Some (j, g'))"

fun sample_set :: "nat \<Rightarrow> nat \<Rightarrow> 'a list \<Rightarrow> nat set \<Rightarrow> rng \<Rightarrow> ('a list \<times> rng) option" where
  "sample_set 0 n population selected g = Some ([], g)"
| "sample_set (Suc k) n population selected g =
     (case draw_fresh n selected g of
        None \<Rightarrow> None
      | Some (j, g') \<Rightarrow>
          (case sample_set k n population (insert j selected) g' of
             None \<Rightarrow> None
           | Some (rest, g'') \<Rightarrow> Some (population ! j # rest, g'')))"

definition sample :: "'a list \<Rightarrow> int \<Rightarrow> rng \<Rightarrow> ((error + 'a list) \<times> rng) option" where
  "sample population k g =
     (let n = length population
      in if \<not> (0 \<le> k \<and> k \<le> int n)
         then Some (Inl (ValueError ''Sample larger than population or is negative''), g)
         else if n \<le> setsize (nat k)
         then (case sample_pool (nat k) n population g of
                 (result, g') \<Rightarrow> Some (Inr result, g'))
         else (case sample_set (nat k) n population {} g of
                 None \<Rightarrow> None
               | Some (result, g') \<Rightarrow> Some (Inr result, g')))"

section \<open>Drawing cards\<close>

text \<open>
  A drawn card is the dict \<open>{'name': ..., 'is_reversed': ...}\<close>. The readers of such a
  dict use \<open>card_info['name']\<close>, \<open>card_info.get('is_reversed', False)\<close> and
  \<open>'is_reversed' in card_info\<close>: the name is always there, the key \<open>is_reversed\<close> may be
  absent (\<open>None\<close>).
\<close>

record drawn_card =
  name :: string
  is_reversed :: "bool option"

definition insufficient_cards_message :: "int \<Rightarrow> nat \<Rightarrow> string" where
  "insufficient_cards_message num_cards available =
     [CHR 0xE8, CHR 0xAF, CHR 0xB7, CHR 0xE6, CHR 0xB1, CHR 0x82, CHR 0xE7, CHR 0x9A,
       CHR 0x84, CHR 0xE7, CHR 0x89, CHR 0x8C, CHR 0xE6, CHR 0x95, CHR 0xB0] @ ''('' @
       str_int num_cards @ '')'' @ [CHR 0xE8, CHR 0xB6, CHR 0x85, CHR 0xE8, CHR 0xBF,
       CHR 0x87, CHR 0xE4, CHR 0xBA, CHR 0x86, CHR 0xE5, CHR 0x8F, CHR 0xAF, CHR 0xE7,
       CHR 0x94, CHR 0xA8, CHR 0xE7, CHR 0x89, CHR 0x8C, CHR 0xE6, CHR 0x95, CHR 0xB0] @
       ''('' @ str_int (int available) @ '')''"

text \<open>
  The loop of \<open>generate_random_draw\<close> over the selected names: one call of \<open>random()\<close> per
  card, reversed when the number is below 0.3, the card appended to \<open>drawn_cards\<close>.
\<close>

fun draw_loop :: "string list \<Rightarrow> drawn_card list \<Rightarrow> rng \<Rightarrow> drawn_card list \<times> rng" where
  "draw_loop [] drawn_cards g = (drawn_cards, g)"
| "draw_loop (card_name # selected_cards) drawn_cards g =
     (let (r, g') = random g;
          card_info = \<lparr>name = card_name, is_reversed = Some (r < 3 / 10)\<rparr>
      in draw_loop selected_cards (drawn_cards @ [card_info]) g')"

text \<open>
  \<open>generate_random_draw(num_cards, available_cards)\<close>. The result is \<open>None\<close> when the call
  does not return; otherwise it is the exception raised or the list returned, together
  with the generator as the call leaves it.
\<close>

definition generate_random_draw ::
  "int \<Rightarrow> string list \<Rightarrow> rng \<Rightarrow> ((error + drawn_card list) \<times> rng) option" where
  "generate_random_draw num_cards available_cards g =
     (if num_cards > int (length available_cards)
      then Some (Inl (ValueError (insufficient_cards_message num_cards (length available_cards))), g)
      else (case sample available_cards num_cards g of
              None \<Rightarrow> None
            | Some (Inl e, g') \<Rightarrow> Some (Inl e, g')
            | Some (Inr selected_cards, g') \<Rightarrow>
                (case draw_loop selected_cards [] g' of
                   (drawn_cards, g'') \<Rightarrow> Some (Inr drawn_cards, g''))))"

section \<open>Resolving meanings\<close>

text \<open>
  \<open>card_meanings\<close> is a dict from card names to dicts with the keys \<open>upright\<close>,
  \<open>reversed\<close> and \<open>symbolism\<close>. \<open>d.get(key, default)\<close> gives the default when the key is
  missing, and the stored value otherwise.
\<close>

type_synonym meaning_data = "string \<rightharpoonup> string"

type_synonym card_meanings = "string \<rightharpoonup> meaning_data"

definition dict_get :: "('k \<rightharpoonup> 'v) \<Rightarrow> 'k \<Rightarrow> 'v \<Rightarrow> 'v" where
  "dict_get d key dflt = (case d key of None \<Rightarrow> dflt | Some v \<Rightarrow> v)"

text \<open>
  The literals of the resolver. The position labels are the Chinese words for reversed
  (U+9006 U+4F4D) and upright (U+6B63 U+4F4D); the defaults of the three \<open>get\<close> calls say
  "reversed meaning unknown", "upright meaning unknown" and "symbolism unknown"; the
  texts for a card that is not in the table say "meaning to be interpreted" and
  "symbolism to be interpreted".
\<close>

definition position_reversed :: string where
  "position_reversed = [CHR 0xE9, CHR 0x80, CHR 0x86, CHR 0xE4, CHR 0xBD, CHR 0x8D]"

definition position_upright :: string where
  "position_upright = [CHR 0xE6, CHR 0xAD, CHR 0xA3, CHR 0xE4, CHR 0xBD, CHR 0x8D]"

definition reversed_meaning_unknown :: string where
  "reversed_meaning_unknown = [CHR 0xE9, CHR 0x80, CHR 0x86, CHR 0xE4, CHR 0xBD,
    CHR 0x8D, CHR 0xE5, CHR 0x90, CHR 0xAB, CHR 0xE4, CHR 0xB9, CHR 0x89, CHR 0xE6,
    CHR 0x9C, CHR 0xAA, CHR 0xE7, CHR 0x9F, CHR 0xA5]"

definition upright_meaning_unknown :: string where
  "upright_meaning_unknown = [CHR 0xE6, CHR 0xAD, CHR 0xA3, CHR 0xE4, CHR 0xBD, CHR 0x8D,
    CHR 0xE5, CHR 0x90, CHR 0xAB, CHR 0xE4, CHR 0xB9, CHR 0x89, CHR 0xE6, CHR 0x9C,
    CHR 0xAA, CHR 0xE7, CHR 0x9F, CHR 0xA5]"

definition symbolism_unknown :: string where
  "symbolism_unknown = [CHR 0xE8, CHR 0xB1, CHR 0xA1, CHR 0xE5, CHR 0xBE, CHR 0x81,
    CHR 0xE6, CHR 0x84, CHR 0x8F, CHR 0xE4, CHR 0xB9, CHR 0x89, CHR 0xE6, CHR 0x9C,
    CHR 0xAA, CHR 0xE7, CHR 0x9F, CHR 0xA5]"

definition meaning_pending :: string where
  "meaning_pending = [CHR 0xE5, CHR 0x90, CHR 0xAB, CHR 0xE4, CHR 0xB9, CHR 0x89,
    CHR 0xE5, CHR 0xBE, CHR 0x85, CHR 0xE8, CHR 0xA7, CHR 0xA3, CHR 0xE8, CHR 0xAF,
    CHR 0xBB]"

definition symbolism_pending :: string where
  "symbolism_pending = [CHR 0xE8, CHR 0xB1, CHR 0xA1, CHR 0xE5, CHR 0xBE, CHR 0x81,
    CHR 0xE6, CHR 0x84, CHR 0x8F, CHR 0xE4, CHR 0xB9, CHR 0x89, CHR 0xE5, CHR 0xBE,
    CHR 0x85, CHR 0xE8, CHR 0xA7, CHR 0xA3, CHR 0xE8, CHR 0xAF, CHR 0xBB]"

text \<open>
  The body of the loop of \<open>prepare_prompt_input\<close> for one card: the line it appends to
  \<open>card_details_list\<close> and the line it appends to \<open>symbolism_list\<close>.
\<close>

definition card_lines :: "card_meanings \<Rightarrow> drawn_card \<Rightarrow> string \<times> string" where
  "card_lines card_meanings card_info =
     (let card_name = name card_info;
          is_rev = (case is_reversed card_info of None \<Rightarrow> False | Some b \<Rightarrow> b)
      in case card_meanings card_name of
           Some meaning_data \<Rightarrow>
             (let (meaning, position) =
                    (if is_rev
                     then (dict_get meaning_data ''reversed'' reversed_meaning_unknown,
                           position_reversed)
                     else (dict_get meaning_data ''upright'' upright_meaning_unknown,
                           position_upright));
                  symbolism = dict_get meaning_data ''symbolism'' symbolism_unknown
              in (''**'' @ card_name @ ''** ('' @ position @ ''): '' @ meaning,
                  ''**'' @ card_name @ ''**: '' @ symbolism))
         | None \<Rightarrow>
             (let position = (if is_rev then position_reversed else position_upright)
              in (''**'' @ card_name @ ''** ('' @ position @ ''): '' @ meaning_pending,
                  ''**'' @ card_name @ ''**: '' @ symbolism_pending)))"

fun prompt_loop ::
  "card_meanings \<Rightarrow> drawn_card list \<Rightarrow> string list \<Rightarrow> string list \<Rightarrow> string list \<times> string list"
where
  "prompt_loop card_meanings [] card_details_list symbolism_list =
     (card_details_list, symbolism_list)"
| "prompt_loop card_meanings (card_info # cards) card_details_list symbolism_list =
     (let (card_detail, symbolism_line) = card_lines card_meanings card_info
      in prompt_loop card_meanings cards
           (card_details_list @ [card_detail]) (symbolism_list @ [symbolism_line]))"

text \<open>\<open>sep.join(xs)\<close>.\<close>

fun join :: "string \<Rightarrow> string list \<Rightarrow> string" where
  "join sep [] = []"
| "join sep [x] = x"
| "join sep (x # y # ys) = x @ sep @ join sep (y # ys)"

text \<open>\<open>s.split(c)\<close> for a separator of one character; the lines of a text are \<open>s.split('\n')\<close>.\<close>

fun split_on :: "char \<Rightarrow> string \<Rightarrow> string list" where
  "split_on c [] = [[]]"
| "split_on c (x # xs) =
     (if x = c then [] # split_on c xs
      else (case split_on c xs of
              [] \<Rightarrow> [[x]]
            | l # ls \<Rightarrow> (x # l) # ls))"

text \<open>
  \<open>input_data\<close> is the dict with the keys \<open>cards\<close> and \<open>context\<close> that the chain builds;
  the result is the dict with the keys \<open>card_details\<close>, \<open>context\<close> and \<open>symbolism\<close>.
  (The field of the key \<open>context\<close> is called \<open>user_context\<close>, since \<open>context\<close> is a
  keyword of Isabelle.)
\<close>

record input_data =
  cards :: "drawn_card list"
  user_context :: string

definition prepare_prompt_input :: "input_data \<Rightarrow> card_meanings \<Rightarrow> (string \<rightharpoonup> string)" where
  "prepare_prompt_input input_data card_meanings =
     (case prompt_loop card_meanings (cards input_data) [] [] of
        (card_details_list, symbolism_list) \<Rightarrow>
          [''card_details'' \<mapsto> join [CHR 0x0A] card_details_list,
           ''context'' \<mapsto> user_context input_data,
           ''symbolism'' \<mapsto> join [CHR 0x0A] symbolism_list])"

section \<open>Building the messages\<close>

text \<open>
  \<open>template.format(**kwargs)\<close> for templates whose replacement fields are plain names:
  \<open>{{\<close> and \<open>}}\<close> stand for a brace, \<open>{name}\<close> for the value of the keyword \<open>name\<close>, put in
  as it is. A name that is not a keyword raises KeyError, a brace without its partner
  ValueError. The second argument of \<open>format_from\<close> is the field name read so far, when
  the scan is inside a field.
\<close>

fun prepend :: "string \<Rightarrow> error + string \<Rightarrow> error + string" where
  "prepend s (Inl e) = Inl e"
| "prepend s (Inr t) = Inr (s @ t)"

fun format_from :: "(string \<rightharpoonup> string) \<Rightarrow> string option \<Rightarrow> string \<Rightarrow> error + string" where
  "format_from kwargs None [] = Inr []"
| "format_from kwargs (Some field) [] =
     Inl (ValueError (''expected '' @ [CHR 0x27] @ ''}'' @ [CHR 0x27] @
       '' before end of string''))"
| "format_from kwargs None (c # cs) =
     (if c = CHR ''{'' then
        (case cs of
           [] \<Rightarrow> Inl (ValueError (''Single '' @ [CHR 0x27] @ ''{'' @
             [CHR 0x27] @ '' encountered in format string''))
         | c' # cs' \<Rightarrow>
             if c' = CHR ''{'' then prepend [c] (format_from kwargs None cs')
             else format_from kwargs (Some []) cs)
      else if c = CHR ''}'' then
        (case cs of
           [] \<Rightarrow> Inl (ValueError (''Single '' @ [CHR 0x27] @ ''}'' @
             [CHR 0x27] @ '' encountered in format string''))
         | c' # cs' \<Rightarrow>
             if c' = CHR ''}'' then prepend [c] (format_from kwargs None cs')
             else Inl (ValueError (''Single '' @ [CHR 0x27] @ ''}'' @ [CHR 0x27] @
               '' encountered in format string'')))
      else prepend [c] (format_from kwargs None cs))"
| "format_from kwargs (Some field) (c # cs) =
     (if c = CHR ''}'' then
        (case kwargs field of
           None \<Rightarrow> Inl (KeyError ([CHR 0x27] @ field @ [CHR 0x27]))
         | Some v \<Rightarrow> prepend v (format_from kwargs None cs))
      else format_from kwargs (Some (field @ [c])) cs)"

definition format :: "string \<Rightarrow> (string \<rightharpoonup> string) \<Rightarrow> error + string" where
  "format template kwargs = format_from kwargs None template"

text \<open>
  \<open>system_message_template\<close>, cut at its three fields: the instructions to the model,
  in Chinese, as they stand in the source.
\<close>

definition template_before_card_details :: string where
  "template_before_card_details =
     [CHR 0x0A, CHR 0xE4, CHR 0xBD, CHR 0xA0, CHR 0xE6, CHR 0x98, CHR 0xAF, CHR 0xE4,
       CHR 0xB8, CHR 0x80, CHR 0xE4, CHR 0xBD, CHR 0x8D, CHR 0xE7, CHR 0xA5, CHR 0x9E,
       CHR 0xE7, CHR 0xA7, CHR 0x98, CHR 0xE7, CHR 0x9A, CHR 0x84, CHR 0xE5, CHR 0xA1,
       CHR 0x94, CHR 0xE7, CHR 0xBD, CHR 0x97, CHR 0xE7, CHR 0x89, CHR 0x8C, CHR 0xE8,
       CHR 0xA7, CHR 0xA3, CHR 0xE8, CHR 0xAF, CHR 0xBB, CHR 0xE5, CHR 0xB8, CHR 0x88,
       CHR 0xEF, CHR 0xBC, CHR 0x8C, CHR 0xE6, CHR 0x8B, CHR 0xA5, CHR 0xE6, CHR 0x9C,
       CHR 0x89, CHR 0xE6, CHR 0xB7, CHR 0xB1, CHR 0xE5, CHR 0x8E, CHR 0x9A, CHR 0xE7,
       CHR 0x9A, CHR 0x84, CHR 0xE8, CHR 0xB1, CHR 0xA1, CHR 0xE5, CHR 0xBE, CHR 0x81,
       CHR 0xE5, CHR 0xAD, CHR 0xA6, CHR 0xE5, CHR 0x92, CHR 0x8C, CHR 0xE5, CHR 0xBF,
       CHR 0x83, CHR 0xE7, CHR 0x90, CHR 0x86, CHR 0xE5, CHR 0xAD, CHR 0xA6, CHR 0xE7,
       CHR 0x9F, CHR 0xA5, CHR 0xE8, CHR 0xAF, CHR 0x86, CHR 0xE3, CHR 0x80, CHR 0x82,
       CHR 0x0A, CHR 0xE8, CHR 0xAF, CHR 0xB7, CHR 0xE5, CHR 0x9F, CHR 0xBA, CHR 0xE4,
       CHR 0xBA, CHR 0x8E, CHR 0xE6, CHR 0x8F, CHR 0x90, CHR 0xE4, CHR 0xBE, CHR 0x9B,
       CHR 0xE7, CHR 0x9A, CHR 0x84, CHR 0xE5, CHR 0x90, CHR 0xAB, CHR 0xE4, CHR 0xB9,
       CHR 0x89, CHR 0xE5, CHR 0x88, CHR 0x86, CHR 0xE6, CHR 0x9E, CHR 0x90, CHR 0xE4,
       CHR 0xBB, CHR 0xA5, CHR 0xE4, CHR 0xB8, CHR 0x8B, CHR 0xE5, CHR 0xA1, CHR 0x94,
       CHR 0xE7, CHR 0xBD, CHR 0x97, CHR 0xE7, CHR 0x89, CHR 0x8C, CHR 0xEF, CHR 0xBC,
       CHR 0x88, CHR 0xE5, CHR 0x90, CHR 0x8C, CHR 0xE6, CHR 0x97, CHR 0xB6, CHR 0xE8,
       CHR 0x80, CHR 0x83, CHR 0xE8, CHR 0x99, CHR 0x91, CHR 0xE5, CHR 0xAE, CHR 0x83,
       CHR 0xE4, CHR 0xBB, CHR 0xAC, CHR 0xE6, CHR 0x98, CHR 0xAF, CHR 0xE5, CHR 0x90,
       CHR 0xA6, CHR 0xE4, CHR 0xB8, CHR 0xBA, CHR 0xE9, CHR 0x80, CHR 0x86, CHR 0xE4,
       CHR 0xBD, CHR 0x8D, CHR 0xEF, CHR 0xBC, CHR 0x89, CHR 0xEF, CHR 0xBC, CHR 0x9A,
       CHR 0x0A]"

definition template_before_context :: string where
  "template_before_context =
     [CHR 0x0A, CHR 0xE8, CHR 0xAF, CHR 0xB7, CHR 0xE7, CHR 0x89, CHR 0xB9, CHR 0xE5,
       CHR 0x88, CHR 0xAB, CHR 0xE6, CHR 0xB3, CHR 0xA8, CHR 0xE6, CHR 0x84, CHR 0x8F,
       CHR 0xE4, CHR 0xBB, CHR 0xA5, CHR 0xE4, CHR 0xB8, CHR 0x8B, CHR 0xE5, CHR 0x87,
       CHR 0xA0, CHR 0xE4, CHR 0xB8, CHR 0xAA, CHR 0xE6, CHR 0x96, CHR 0xB9, CHR 0xE9,
       CHR 0x9D, CHR 0xA2, CHR 0xEF, CHR 0xBC, CHR 0x9A, CHR 0x0A] @ ''- '' @ [CHR 0xE8,
       CHR 0xAF, CHR 0xA6, CHR 0xE7, CHR 0xBB, CHR 0x86, CHR 0xE5, CHR 0x88, CHR 0x86,
       CHR 0xE6, CHR 0x9E, CHR 0x90, CHR 0xE6, CHR 0xAF, CHR 0x8F, CHR 0xE5, CHR 0xBC,
       CHR 0xA0, CHR 0xE7, CHR 0x89, CHR 0x8C, CHR 0xE7, CHR 0x9A, CHR 0x84, CHR 0xE5,
       CHR 0x90, CHR 0xAB, CHR 0xE4, CHR 0xB9, CHR 0x89, CHR 0xEF, CHR 0xBC, CHR 0x88,
       CHR 0xE6, CHR 0xAD, CHR 0xA3, CHR 0xE4, CHR 0xBD, CHR 0x8D, CHR 0xE6, CHR 0x88,
       CHR 0x96, CHR 0xE9, CHR 0x80, CHR 0x86, CHR 0xE4, CHR 0xBD, CHR 0x8D, CHR 0xEF,
       CHR 0xBC, CHR 0x89, CHR 0xE3, CHR 0x80, CHR 0x82, CHR 0x0A] @ ''- '' @ [CHR 0xE7,
       CHR 0x84, CHR 0xB6, CHR 0xE5, CHR 0x90, CHR 0x8E, CHR 0xE6, CHR 0xA0, CHR 0xB9,
       CHR 0xE6, CHR 0x8D, CHR 0xAE, CHR 0xE5, CHR 0x8D, CHR 0xA1, CHR 0xE7, CHR 0x89,
       CHR 0x8C, CHR 0xE6, CHR 0x8F, CHR 0x90, CHR 0xE4, CHR 0xBE, CHR 0x9B, CHR 0xE4,
       CHR 0xB8, CHR 0x80, CHR 0xE4, CHR 0xB8, CHR 0xAA, CHR 0xE4, CHR 0xB8, CHR 0x8E,
       CHR 0xE4, CHR 0xB8, CHR 0x8A, CHR 0xE4, CHR 0xB8, CHR 0x8B, CHR 0xE6, CHR 0x96,
       CHR 0x87, CHR 0xE7, CHR 0x9B, CHR 0xB8, CHR 0xE5, CHR 0x85, CHR 0xB3, CHR 0xE7,
       CHR 0x9A, CHR 0x84, CHR 0xE6, CHR 0x80, CHR 0xBB, CHR 0xE4, CHR 0xBD, CHR 0x93,
       CHR 0xE8, CHR 0xA7, CHR 0xA3, CHR 0xE9, CHR 0x87, CHR 0x8A, CHR 0xEF, CHR 0xBC,
       CHR 0x9A]"

definition template_before_symbolism :: string where
  "template_before_symbolism =
     [CHR 0xE3, CHR 0x80, CHR 0x82, CHR 0x0A] @ ''- '' @ [CHR 0xE4, CHR 0xBF, CHR 0x9D,
       CHR 0xE6, CHR 0x8C, CHR 0x81, CHR 0xE7, CHR 0xA5, CHR 0x9E, CHR 0xE7, CHR 0xA7,
       CHR 0x98, CHR 0xEF, CHR 0xBC, CHR 0x8C, CHR 0xE5, CHR 0xB9, CHR 0xB6, CHR 0xE5,
       CHR 0x9F, CHR 0xBA, CHR 0xE4, CHR 0xBA, CHR 0x8E, CHR 0xE7, CHR 0x89, CHR 0xB9,
       CHR 0xE5, CHR 0xAE, CHR 0x9A, CHR 0xE5, CHR 0x88, CHR 0x97] @ '' ''"

definition template_after_symbolism :: string where
  "template_after_symbolism =
     '' '' @ [CHR 0xE6, CHR 0x8F, CHR 0x90, CHR 0xE4, CHR 0xBE, CHR 0x9B, CHR 0xE4,
       CHR 0xB8, CHR 0x8E, CHR 0xE5, CHR 0x8D, CHR 0xA1, CHR 0xE7, CHR 0x89, CHR 0x8C,
       CHR 0xE8, CHR 0xB1, CHR 0xA1, CHR 0xE5, CHR 0xBE, CHR 0x81, CHR 0xE6, CHR 0x84,
       CHR 0x8F, CHR 0xE4, CHR 0xB9, CHR 0x89, CHR 0xE7, CHR 0x9B, CHR 0xB8, CHR 0xE5,
       CHR 0x85, CHR 0xB3, CHR 0xE7, CHR 0x9A, CHR 0x84, CHR 0xE8, CHR 0xA7, CHR 0xA3,
       CHR 0xE9, CHR 0x87, CHR 0x8A, CHR 0xE4, CHR 0xBF, CHR 0xA1, CHR 0xE6, CHR 0x81,
       CHR 0xAF, CHR 0xE3, CHR 0x80, CHR 0x82, CHR 0x0A] @ ''- '' @ [CHR 0xE5, CHR 0x9C,
       CHR 0xA8, CHR 0xE8, CHR 0xA7, CHR 0xA3, CHR 0xE8, CHR 0xAF, CHR 0xBB, CHR 0xE7,
       CHR 0xBB, CHR 0x93, CHR 0xE6, CHR 0x9D, CHR 0x9F, CHR 0xE6, CHR 0x97, CHR 0xB6,
       CHR 0xEF, CHR 0xBC, CHR 0x8C, CHR 0xE6, CHR 0x80, CHR 0xBB, CHR 0xE6, CHR 0x98,
       CHR 0xAF, CHR 0xE6, CHR 0x8F, CHR 0x90, CHR 0xE4, CHR 0xBE, CHR 0x9B, CHR 0xE6,
       CHR 0x94, CHR 0xB9, CHR 0xE5, CHR 0x96, CHR 0x84, CHR 0xE6, CHR 0x88, CHR 0x96,
       CHR 0xE5, CHR 0xA4, CHR 0x84, CHR 0xE7, CHR 0x90, CHR 0x86, CHR 0xE5, CHR 0xBD,
       CHR 0x93, CHR 0xE5, CHR 0x89, CHR 0x8D, CHR 0xE6, CHR 0x83, CHR 0x85, CHR 0xE5,
       CHR 0x86, CHR 0xB5, CHR 0xE7, CHR 0x9A, CHR 0x84, CHR 0xE5, CHR 0xBB, CHR 0xBA,
       CHR 0xE8, CHR 0xAE, CHR 0xAE, CHR 0xE3, CHR 0x80, CHR 0x82, CHR 0xE5, CHR 0xBB,
       CHR 0xBA, CHR 0xE8, CHR 0xAE, CHR 0xAE, CHR 0xE4, CHR 0xB9, CHR 0x9F, CHR 0xE8,
       CHR 0xAF, CHR 0xB7, CHR 0xE5, CHR 0x9F, CHR 0xBA, CHR 0xE4, CHR 0xBA, CHR 0x8E,
       CHR 0xE4, CHR 0xBD, CHR 0xA0, CHR 0xE7, CHR 0x9A, CHR 0x84, CHR 0xE5, CHR 0xBF,
       CHR 0x83, CHR 0xE7, CHR 0x90, CHR 0x86, CHR 0xE5, CHR 0xAD, CHR 0xA6, CHR 0xE7,
       CHR 0x9F, CHR 0xA5, CHR 0xE8, CHR 0xAF, CHR 0x86, CHR 0xE3, CHR 0x80, CHR 0x82,
       CHR 0x0A]"

definition system_message_template :: string where
  "system_message_template =
     template_before_card_details @ ''{card_details}''
     @ template_before_context @ ''{context}''
     @ template_before_symbolism @ ''{symbolism}''
     @ template_after_symbolism"

text \<open>\<open>prompt_analysis = PromptTemplate.from_template("{context}")\<close>.\<close>

definition prompt_analysis :: string where
  "prompt_analysis = ''{context}''"

text \<open>
  The messages of langchain; an object of any other class is kept as its \<open>str\<close>.
\<close>

datatype message =
  SystemMessage string
| HumanMessage string
| AIMessage string
| OtherMessage string

text \<open>
  The third stage of the chain \<open>analyzer\<close>:
  \<^verbatim>\<open>
  lambda x: [SystemMessage(content=system_message_template.format(**x)),
             HumanMessage(content=prompt_analysis.format(context=x['context']))]
  \<close>
\<close>

definition build_messages :: "(string \<rightharpoonup> string) \<Rightarrow> error + message list" where
  "build_messages x =
     (case format system_message_template x of
        Inl e \<Rightarrow> Inl e
      | Inr system_content \<Rightarrow>
          (case x ''context'' of
             None \<Rightarrow> Inl (KeyError ([CHR 0x27] @ ''context'' @ [CHR 0x27]))
           | Some c \<Rightarrow>
               (case format prompt_analysis [''context'' \<mapsto> c] of
                  Inl e \<Rightarrow> Inl e
                | Inr human_content \<Rightarrow>
                    Inr [SystemMessage system_content, HumanMessage human_content])))"

section \<open>The language model client\<close>

text \<open>
  Truth of an optional string (\<open>None\<close> and the empty string are false), and \<open>a or b\<close>.
\<close>

definition truthy :: "string option \<Rightarrow> bool" where
  "truthy s = (case s of None \<Rightarrow> False | Some v \<Rightarrow> v \<noteq> [])"

definition py_or :: "string option \<Rightarrow> string option \<Rightarrow> string option" where
  "py_or a b = (if truthy a then a else b)"

text \<open>
  The environment is the dict behind \<open>os.getenv\<close>, after \<open>load_dotenv()\<close>.
\<close>

type_synonym environ = "string \<rightharpoonup> string"

record QwenLLMImproved =
  api_key :: string
  model :: string
  temperature :: real
  top_p :: real
  max_tokens :: int

text \<open>
  \<open>QwenLLMImproved.__init__\<close>: the key is \<open>api_key or os.getenv("DASHSCOPE_API_KEY")\<close>.
  The message of its ValueError says that the API key is not configured and asks for the
  parameter \<open>api_key\<close> or the environment variable \<open>DASHSCOPE_API_KEY\<close>. The assignment of
  the key to the module \<open>dashscope\<close> is left out.
\<close>

definition api_key_missing :: string where
  "api_key_missing = [CHR 0xE9, CHR 0x80, CHR 0x9A, CHR 0xE4, CHR 0xB9, CHR 0x89,
    CHR 0xE5, CHR 0x8D, CHR 0x83, CHR 0xE9, CHR 0x97, CHR 0xAE] @ ''API'' @ [CHR 0xE5,
    CHR 0xAF, CHR 0x86, CHR 0xE9, CHR 0x92, CHR 0xA5, CHR 0xE6, CHR 0x9C, CHR 0xAA,
    CHR 0xE9, CHR 0x85, CHR 0x8D, CHR 0xE7, CHR 0xBD, CHR 0xAE, CHR 0xEF, CHR 0xBC,
    CHR 0x8C, CHR 0xE8, CHR 0xAF, CHR 0xB7, CHR 0xE6, CHR 0x8F, CHR 0x90, CHR 0xE4,
    CHR 0xBE, CHR 0x9B] @ ''api_key'' @ [CHR 0xE5, CHR 0x8F, CHR 0x82, CHR 0xE6, CHR 0x95,
    CHR 0xB0, CHR 0xE6, CHR 0x88, CHR 0x96, CHR 0xE8, CHR 0xAE, CHR 0xBE, CHR 0xE7,
    CHR 0xBD, CHR 0xAE] @ ''DASHSCOPE_API_KEY'' @ [CHR 0xE7, CHR 0x8E, CHR 0xAF, CHR 0xE5,
    CHR 0xA2, CHR 0x83, CHR 0xE5, CHR 0x8F, CHR 0x98, CHR 0xE9, CHR 0x87, CHR 0x8F]"

definition QwenLLMImproved_init ::
  "environ \<Rightarrow> string option \<Rightarrow> string \<Rightarrow> real \<Rightarrow> real \<Rightarrow> int \<Rightarrow> error + QwenLLMImproved" where
  "QwenLLMImproved_init env api_key_arg model_arg temperature_arg top_p_arg max_tokens_arg =
     (case py_or api_key_arg (env ''DASHSCOPE_API_KEY'') of
        None \<Rightarrow> Inl (ValueError api_key_missing)
      | Some key \<Rightarrow>
          if key = [] then Inl (ValueError api_key_missing)
          else Inr \<lparr>api_key = key, model = model_arg, temperature = temperature_arg,
                    top_p = top_p_arg, max_tokens = max_tokens_arg\<rparr>)"

text \<open>
  \<open>FallbackLLM\<close> keeps the error message it was built with; \<open>invoke\<close> answers every
  list of messages with the same apology around it ("Sorry, the AI model is not available
  for now: ... . Please try again later or check the configuration.").
\<close>

datatype llm = QwenLLM QwenLLMImproved | FallbackLLM string

definition FallbackLLM_invoke :: "string \<Rightarrow> message list \<Rightarrow> string" where
  "FallbackLLM_invoke error_message messages =
     [CHR 0xE6, CHR 0x8A, CHR 0xB1, CHR 0xE6, CHR 0xAD, CHR 0x89, CHR 0xEF, CHR 0xBC,
       CHR 0x8C] @ ''AI'' @ [CHR 0xE6, CHR 0xA8, CHR 0xA1, CHR 0xE5, CHR 0x9E, CHR 0x8B,
       CHR 0xE6, CHR 0x9A, CHR 0x82, CHR 0xE6, CHR 0x97, CHR 0xB6, CHR 0xE4, CHR 0xB8,
       CHR 0x8D, CHR 0xE5, CHR 0x8F, CHR 0xAF, CHR 0xE7, CHR 0x94, CHR 0xA8, CHR 0xEF,
       CHR 0xBC, CHR 0x9A] @ error_message @ [CHR 0xE3, CHR 0x80, CHR 0x82, CHR 0xE8,
       CHR 0xAF, CHR 0xB7, CHR 0xE7, CHR 0xA8, CHR 0x8D, CHR 0xE5, CHR 0x90, CHR 0x8E,
       CHR 0xE9, CHR 0x87, CHR 0x8D, CHR 0xE8, CHR 0xAF, CHR 0x95, CHR 0xE6, CHR 0x88,
       CHR 0x96, CHR 0xE6, CHR 0xA3, CHR 0x80, CHR 0xE6, CHR 0x9F, CHR 0xA5, CHR 0xE9,
       CHR 0x85, CHR 0x8D, CHR 0xE7, CHR 0xBD, CHR 0xAE, CHR 0xE3, CHR 0x80, CHR 0x82]"

text \<open>
  The start of the application: the key is read from the environment; without it a
  ValueError is raised at once, whose message asks for \<open>DASHSCOPE_API_KEY\<close> in the file
  \<open>.env\<close>; with it the client is constructed. Every exception of the block is caught and
  replaced by \<open>FallbackLLM(str(e))\<close>.
\<close>

definition env_key_missing :: string where
  "env_key_missing = [CHR 0xE9, CHR 0x80, CHR 0x9A, CHR 0xE4, CHR 0xB9, CHR 0x89,
    CHR 0xE5, CHR 0x8D, CHR 0x83, CHR 0xE9, CHR 0x97, CHR 0xAE] @ ''API'' @ [CHR 0xE5,
    CHR 0xAF, CHR 0x86, CHR 0xE9, CHR 0x92, CHR 0xA5, CHR 0xE6, CHR 0x9C, CHR 0xAA,
    CHR 0xE9, CHR 0x85, CHR 0x8D, CHR 0xE7, CHR 0xBD, CHR 0xAE, CHR 0xEF, CHR 0xBC,
    CHR 0x8C, CHR 0xE8, CHR 0xAF, CHR 0xB7, CHR 0xE7, CHR 0xA1, CHR 0xAE, CHR 0xE4,
    CHR 0xBF, CHR 0x9D] @ ''.env'' @ [CHR 0xE6, CHR 0x96, CHR 0x87, CHR 0xE4, CHR 0xBB,
    CHR 0xB6, CHR 0xE4, CHR 0xB8, CHR 0xAD, CHR 0xE5, CHR 0x8C, CHR 0x85, CHR 0xE5,
    CHR 0x90, CHR 0xAB] @ ''DASHSCOPE_API_KEY''"

definition configure_llm :: "environ \<Rightarrow> llm" where
  "configure_llm env =
     (let api_key = env ''DASHSCOPE_API_KEY'';
          constructed =
            (if \<not> truthy api_key then Inl (ValueError env_key_missing)
             else QwenLLMImproved_init env api_key ''qwen-plus'' (8 / 10) (8 / 10) 2000)
      in case constructed of
           Inl e \<Rightarrow> FallbackLLM (str_of_error e)
         | Inr client \<Rightarrow> QwenLLM client)"

subsection \<open>Generating a response\<close>

text \<open>
  \<open>_convert_messages_to_qwen_format\<close>: each message becomes its role and content.
\<close>

fun convert_message :: "message \<Rightarrow> string \<times> string" where
  "convert_message (SystemMessage content) = (''system'', content)"
| "convert_message (HumanMessage content) = (''user'', content)"
| "convert_message (AIMessage content) = (''assistant'', content)"
| "convert_message (OtherMessage s) = (''user'', s)"

definition convert_messages_to_qwen_format :: "message list \<Rightarrow> (string \<times> string) list" where
  "convert_messages_to_qwen_format messages = map convert_message messages"

text \<open>
  The call of the backend, \<open>dashscope.Generation.call\<close>, is a parameter: a function from
  the request (the keyword arguments of the call) to what came back. It either raises, with
  the text of the exception, or returns a response.

  The response is read like a dict: \<open>response.status_code\<close>, \<open>'output' in response\<close>,
  \<open>response['output']\<close>, \<open>response.get('message', ...)\<close>. An entry of such a dict is missing,
  holds \<open>None\<close>, or holds a value. The responses that dashscope builds hold every key and put
  \<open>None\<close> where the body has nothing: \<open>output\<close> is \<open>None\<close> in an error response, and the
  \<open>choices\<close> of an output are \<open>None\<close> when the body has none. A choice is a dict of dicts.
\<close>

datatype 'a entry = Missing | Null | Value 'a

record request =
  request_model :: string
  request_messages :: "(string \<times> string) list"
  request_temperature :: real
  request_top_p :: real
  request_max_tokens :: int
  repetition_penalty :: real
  stream :: bool
  result_format :: string

type_synonym choice = "string \<rightharpoonup> (string \<rightharpoonup> string)"

record generation_output =
  output_choices :: "choice list entry"

record response =
  status_code :: int
  response_message :: "string entry"
  response_output :: "generation_output entry"

datatype call_result = Raises string | Returns response

text \<open>
  The keyword arguments that \<open>_generate\<close> reads from \<open>kwargs\<close>.
\<close>

record generate_kwargs =
  kw_max_tokens :: "int option"
  kw_repetition_penalty :: "real option"

datatype generation = Generation (generation_text: string)

datatype llm_result = LLMResult (generations: "generation list list")

text \<open>
  \<open>response['output']['choices'][0]['message']['content']\<close>, with the IndexError and the
  KeyErrors of its lookups.
\<close>

definition first_content :: "choice list \<Rightarrow> error + string" where
  "first_content choices =
     (case choices of
        [] \<Rightarrow> Inl (IndexError ''list index out of range'')
      | c # _ \<Rightarrow>
          (case c ''message'' of
             None \<Rightarrow> Inl (KeyError ([CHR 0x27] @ ''message'' @ [CHR 0x27]))
           | Some m \<Rightarrow>
               (case m ''content'' of
                  None \<Rightarrow> Inl (KeyError ([CHR 0x27] @ ''content'' @ [CHR 0x27]))
                | Some content \<Rightarrow> Inr content)))"

text \<open>
  The two error texts of \<open>_generate\<close>: "API call failed: HTTP status code ..., error
  message: ..." in the \<open>else\<close> branch, and "API call exception: ..." in the \<open>except\<close>
  branch. The message of the first is \<open>response.get('message', d)\<close>, where the default \<open>d\<close>
  says "unknown error"; an entry that holds \<open>None\<close> is formatted as \<open>None\<close>.
\<close>

definition call_failed_text :: "int \<Rightarrow> string \<Rightarrow> string" where
  "call_failed_text code msg =
     ''API'' @ [CHR 0xE8, CHR 0xB0, CHR 0x83, CHR 0xE7, CHR 0x94, CHR 0xA8, CHR 0xE5,
       CHR 0xA4, CHR 0xB1, CHR 0xE8, CHR 0xB4, CHR 0xA5] @ '': HTTP'' @ [CHR 0xE7,
       CHR 0x8A, CHR 0xB6, CHR 0xE6, CHR 0x80, CHR 0x81, CHR 0xE7, CHR 0xA0, CHR 0x81] @
       '' '' @ str_int code @ '', '' @ [CHR 0xE9, CHR 0x94, CHR 0x99, CHR 0xE8, CHR 0xAF,
       CHR 0xAF, CHR 0xE4, CHR 0xBF, CHR 0xA1, CHR 0xE6, CHR 0x81, CHR 0xAF] @ '': '' @
       msg"

definition unknown_error :: string where
  "unknown_error = [CHR 0xE6, CHR 0x9C, CHR 0xAA, CHR 0xE7, CHR 0x9F, CHR 0xA5, CHR 0xE9,
    CHR 0x94, CHR 0x99, CHR 0xE8, CHR 0xAF, CHR 0xAF]"

definition get_message :: "response \<Rightarrow> string" where
  "get_message response =
     (case response_message response of
        Missing \<Rightarrow> unknown_error
      | Null \<Rightarrow> ''None''
      | Value m \<Rightarrow> m)"

definition call_exception_text :: "string \<Rightarrow> string" where
  "call_exception_text e = ''API'' @ [CHR 0xE8, CHR 0xB0, CHR 0x83, CHR 0xE7, CHR 0x94,
    CHR 0xA8, CHR 0xE5, CHR 0xBC, CHR 0x82, CHR 0xE5, CHR 0xB8, CHR 0xB8] @ '': '' @ e"

definition generation_request ::
  "QwenLLMImproved \<Rightarrow> message list \<Rightarrow> generate_kwargs \<Rightarrow> request" where
  "generation_request self messages kwargs =
     \<lparr>request_model = model self,
      request_messages = convert_messages_to_qwen_format messages,
      request_temperature = temperature self,
      request_top_p = top_p self,
      request_max_tokens =
        (case kw_max_tokens kwargs of None \<Rightarrow> max_tokens self | Some v \<Rightarrow> v),
      repetition_penalty =
        (case kw_repetition_penalty kwargs of None \<Rightarrow> 1 | Some v \<Rightarrow> v),
      stream = False,
      result_format = ''message''\<rparr>"

text \<open>
  \<open>_generate\<close>. The \<open>try\<close> block converts the messages, calls the backend and reads the
  response; whatever is raised inside it is caught and becomes the text of the generation.
  The test of the \<open>if\<close> is
  \<open>status_code == 200 and 'output' in response and 'choices' in response['output']\<close>,
  read from the left: with an output that is \<open>None\<close> the third test raises the TypeError of
  \<open>'choices' in None\<close>; with choices that are \<open>None\<close> the test holds and \<open>choices[0]\<close> raises
  the TypeError of \<open>None[0]\<close> (the texts are those of CPython 3.12).
\<close>

definition generate ::
  "QwenLLMImproved \<Rightarrow> (request \<Rightarrow> call_result) \<Rightarrow> message list \<Rightarrow> generate_kwargs \<Rightarrow> llm_result" where
  "generate self call messages kwargs =
     (case call (generation_request self messages kwargs) of
        Raises e \<Rightarrow> LLMResult [[Generation (call_exception_text e)]]
      | Returns response \<Rightarrow>
          (let failed =
                 LLMResult [[Generation (call_failed_text (status_code response)
                                           (get_message response))]]
           in if status_code response = 200 then
                (case response_output response of
                   Missing \<Rightarrow> failed
                 | Null \<Rightarrow>
                     LLMResult [[Generation (call_exception_text
                       (str_of_error (TypeError (''argument of type '' @ [CHR 0x27] @
                         ''NoneType'' @ [CHR 0x27] @ '' is not iterable''))))]]
                 | Value out \<Rightarrow>
                     (case output_choices out of
                        Missing \<Rightarrow> failed
                      | Null \<Rightarrow>
                          LLMResult [[Generation (call_exception_text
                            (str_of_error (TypeError ([CHR 0x27] @ ''NoneType'' @
                              [CHR 0x27] @ '' object is not subscriptable''))))]]
                      | Value choices \<Rightarrow>
                          (case first_content choices of
                             Inl e \<Rightarrow>
                               LLMResult [[Generation (call_exception_text (str_of_error e))]]
                           | Inr content \<Rightarrow> LLMResult [[Generation content]])))
              else failed))"

subsection \<open>The chain\<close>

text \<open>
  The chain of the application is built when the module is loaded, outside every \<open>try\<close>:
  \<^verbatim>\<open>
  analyzer = (RunnableParallel(...) | (lambda x: ...) | (lambda x: ...) | llm)
  \<close>
  The operator \<open>|\<close> of langchain passes its right operand through \<open>coerce_to_runnable\<close>,
  which takes a Runnable, a callable or a dict and raises TypeError for every other object.
  The two lambdas are callables. \<open>QwenLLMImproved\<close> is a \<open>BaseLanguageModel\<close>, which is a
  Runnable. \<open>FallbackLLM\<close> is a plain class with the methods \<open>__init__\<close> and \<open>invoke\<close>: not
  a Runnable, not callable, not a dict. The chain, once built, ends in the client.
\<close>

definition unsupported_type :: string where
  "unsupported_type =
     ''Expected a Runnable, callable or dict.Instead got an unsupported type: <class '' @
       [CHR 0x27] @ ''helpers.qianwen_help_func.FallbackLLM'' @ [CHR 0x27] @ ''>''"

definition coerce_to_runnable :: "llm \<Rightarrow> error + QwenLLMImproved" where
  "coerce_to_runnable thing =
     (case thing of
        QwenLLM client \<Rightarrow> Inr client
      | FallbackLLM error_message \<Rightarrow> Inl (TypeError unsupported_type))"

definition analyzer :: "llm \<Rightarrow> error + QwenLLMImproved" where
  "analyzer llm = coerce_to_runnable llm"

section \<open>Showing the cards\<close>

text \<open>
  The caption of a card in the application:
  \<^verbatim>\<open>
  reversed_label = "(R)" if 'is_reversed' in card_info else ""
  caption = f"{card_info['name']} {reversed_label}"
  \<close>
  and the test that turns the image, \<open>card_info.get('is_reversed', False)\<close>.
\<close>

definition reversed_label :: "drawn_card \<Rightarrow> string" where
  "reversed_label card_info = (if is_reversed card_info \<noteq> None then ''(R)'' else [])"

definition caption :: "drawn_card \<Rightarrow> string" where
  "caption card_info = name card_info @ '' '' @ reversed_label card_info"

definition image_rotated :: "drawn_card \<Rightarrow> bool" where
  "image_rotated card_info = (case is_reversed card_info of None \<Rightarrow> False | Some b \<Rightarrow> b)"

section \<open>Properties of the draw\<close>

lemma randbelow_tape [simp]: "tape (snd (randbelow n g)) = tape g"
  by (simp add: randbelow_def)

lemma randbelow_less: "0 < n \<Longrightarrow> fst (randbelow n g) < n"
  by (simp add: randbelow_def)

lemma sample_pool_props:
  "k \<le> m \<Longrightarrow> m \<le> length pool \<Longrightarrow> distinct (take m pool) \<Longrightarrow>
   sample_pool k m pool g = (res, g') \<Longrightarrow>
   length res = k \<and> distinct res \<and> set res \<subseteq> set (take m pool)"
proof (induction k arbitrary: m pool g res g')
  case 0
  then show ?case by simp
next
  case (Suc k)
  obtain j g1 where rb: "randbelow m g = (j, g1)" by (cases "randbelow m g")
  have mpos: "0 < m" using Suc.prems(1) by simp
  have jm: "j < m" using randbelow_less [OF mpos, of g] rb by simp
  let ?pool' = "pool[j := pool ! (m - 1)]"
  obtain rest g2 where sp: "sample_pool k (m - 1) ?pool' g1 = (rest, g2)"
    by (cases "sample_pool k (m - 1) ?pool' g1")
  from Suc.prems(4) rb sp have res: "res = pool ! j # rest" by simp
  have tk: "take m pool = take (m - 1) pool @ [pool ! (m - 1)]"
    using mpos Suc.prems(2) by (metis Suc_diff_1 Suc_le_lessD take_Suc_conv_app_nth)
  have tk': "take (m - 1) ?pool' = (take (m - 1) pool)[j := pool ! (m - 1)]"
    by (simp add: take_update_swap)
  have d1: "distinct (take (m - 1) pool)" and notin: "pool ! (m - 1) \<notin> set (take (m - 1) pool)"
    using Suc.prems(3) tk by auto
  have len1: "length (take (m - 1) pool) = m - 1" using Suc.prems(2) by simp
  have dist': "distinct (take (m - 1) ?pool')" and
       set': "set (take (m - 1) ?pool') \<subseteq> set (take m pool) - {pool ! j}"
  proof -
    show "distinct (take (m - 1) ?pool')"
      unfolding tk' using d1 notin by (intro distinct_list_update) auto
    show "set (take (m - 1) ?pool') \<subseteq> set (take m pool) - {pool ! j}"
    proof (cases "j < m - 1")
      case True
      then have "set ((take (m - 1) pool)[j := pool ! (m - 1)])
                 = insert (pool ! (m - 1)) (set (take (m - 1) pool) - {take (m - 1) pool ! j})"
        using d1 len1 by (simp add: set_update_distinct)
      moreover have "take (m - 1) pool ! j = pool ! j" using True by simp
      moreover have "pool ! (m - 1) \<noteq> pool ! j"
        using notin True len1 by (metis \<open>take (m - 1) pool ! j = pool ! j\<close> nth_mem)
      ultimately show ?thesis unfolding tk' using tk by auto
    next
      case False
      then have "j = m - 1" using jm by simp
      then have "(take (m - 1) pool)[j := pool ! (m - 1)] = take (m - 1) pool"
        using len1 by (intro list_update_beyond) simp
      then show ?thesis unfolding tk' using tk notin \<open>j = m - 1\<close> by auto
    qed
  qed
  have IH: "length rest = k \<and> distinct rest \<and> set rest \<subseteq> set (take (m - 1) ?pool')"
    using Suc.IH [OF _ _ dist' sp] Suc.prems(1,2) by simp
  have "pool ! j \<in> set (take m pool)"
    using jm Suc.prems(2) by (metis in_set_conv_nth length_take min.absorb2 nth_take)
  then show ?case using IH set' res by auto
qed


lemma draw_fresh_returns:
  "0 < n \<Longrightarrow> pos g \<le> q \<Longrightarrow> tape g q mod n \<notin> sel \<Longrightarrow>
   \<exists>j g'. draw_fresh n sel g = Some (j, g') \<and> j < n \<and> j \<notin> sel \<and> tape g' = tape g"
proof (induction "q - pos g" arbitrary: g)
  case 0
  then have "q = pos g" by simp
  with 0 show ?case
    by (subst draw_fresh.simps) (simp add: randbelow_def)
next
  case (Suc d)
  show ?case
  proof (cases "tape g (pos g) mod n \<in> sel")
    case False
    with Suc.prems show ?thesis
      by (subst draw_fresh.simps) (simp add: randbelow_def)
  next
    case True
    let ?g1 = "g\<lparr>pos := Suc (pos g)\<rparr>"
    have "d = q - pos ?g1" "pos ?g1 \<le> q" "tape ?g1 q mod n \<notin> sel"
      using Suc.hyps(2) Suc.prems by auto
    from Suc.hyps(1) [OF this(1) Suc.prems(1) this(2,3)]
    obtain j g' where "draw_fresh n sel ?g1 = Some (j, g')" "j < n" "j \<notin> sel" "tape g' = tape g"
      by auto
    with True show ?thesis
      by (subst draw_fresh.simps) (simp add: randbelow_def)
  qed
qed

lemma sample_set_returns:
  "finite sel \<Longrightarrow> sel \<subseteq> {..<n} \<Longrightarrow> card sel + k \<le> n \<Longrightarrow> fair (tape g) n \<Longrightarrow>
   \<exists>js g'. sample_set k n population sel g = Some (map ((!) population) js, g')
     \<and> length js = k \<and> distinct js \<and> set js \<subseteq> {..<n} - sel"
proof (induction k arbitrary: sel g)
  case 0
  then show ?case by simp
next
  case (Suc k)
  have "card sel < card {..<n}" using Suc.prems(3) by simp
  then have "\<not> {..<n} \<subseteq> sel"
    using Suc.prems(1) by (meson card_mono not_le)
  then obtain v where v: "v < n" "v \<notin> sel" by auto
  then obtain q where q: "pos g \<le> q" "tape g q mod n = v"
    using Suc.prems(4) unfolding fair_def by blast
  have npos: "0 < n" using v by simp
  from draw_fresh_returns [OF npos q(1), of sel] q(2) v(2)
  obtain j g1 where df: "draw_fresh n sel g = Some (j, g1)" "j < n" "j \<notin> sel" "tape g1 = tape g"
    by auto
  have "finite (insert j sel)" "insert j sel \<subseteq> {..<n}" "card (insert j sel) + k \<le> n"
       "fair (tape g1) n"
    using Suc.prems df by auto
  from Suc.IH [OF this, of ]
  obtain js g2 where ih: "sample_set k n population (insert j sel) g1 = Some (map ((!) population) js, g2)"
     "length js = k" "distinct js" "set js \<subseteq> {..<n} - insert j sel"
    by blast
  have "sample_set (Suc k) n population sel g = Some (map ((!) population) (j # js), g2)"
    using df(1) ih(1) by simp
  moreover have "length (j # js) = Suc k" "distinct (j # js)" "set (j # js) \<subseteq> {..<n} - sel"
    using ih df by auto
  ultimately show ?case by blast
qed

lemma draw_loop_names:
  "draw_loop cs acc g = (res, g') \<Longrightarrow> map name res = map name acc @ cs"
  by (induction cs acc g rule: draw_loop.induct) (auto split: prod.splits)

lemma sample_returns:
  assumes "distinct D" "0 \<le> k" "k \<le> int (length D)"
    and "length D \<le> setsize (nat k) \<or> fair (tape g) (length D)"
  shows "\<exists>res g'. sample D k g = Some (Inr res, g') \<and> int (length res) = k
           \<and> distinct res \<and> set res \<subseteq> set D"
proof (cases "length D \<le> setsize (nat k)")
  case True
  obtain res g' where sp: "sample_pool (nat k) (length D) D g = (res, g')"
    by (cases "sample_pool (nat k) (length D) D g")
  have "length res = nat k \<and> distinct res \<and> set res \<subseteq> set (take (length D) D)"
    using assms by (intro sample_pool_props [OF _ _ _ sp]) auto
  moreover have "sample D k g = Some (Inr res, g')"
    using True assms sp by (simp add: sample_def)
  ultimately show ?thesis using assms(2) by auto
next
  case False
  then have "fair (tape g) (length D)" using assms(4) by simp
  have "nat k \<le> length D" using assms(2,3) by simp
  from sample_set_returns [of "{}" "length D" "nat k" g D] this \<open>fair (tape g) (length D)\<close>
  obtain js g' where ss: "sample_set (nat k) (length D) D {} g = Some (map ((!) D) js, g')"
    "length js = nat k" "distinct js" "set js \<subseteq> {..<length D}"
    by auto
  have "inj_on ((!) D) (set js)"
  proof (rule inj_onI)
    fix x y assume "x \<in> set js" "y \<in> set js" "D ! x = D ! y"
    then have "x < length D" "y < length D" using ss(4) by auto
    with assms(1) \<open>D ! x = D ! y\<close> show "x = y" by (simp add: nth_eq_iff_index_eq)
  qed
  then have "distinct (map ((!) D) js)" using ss(3) by (simp add: distinct_map)
  moreover have "set (map ((!) D) js) \<subseteq> set D" using ss(4) by auto
  moreover have "sample D k g = Some (Inr (map ((!) D) js), g')"
    using False assms ss(1) by (simp add: sample_def)
  ultimately show ?thesis using ss(2) assms(2) by auto
qed

lemma str_int_2: "str_int 2 = ''2''"
  by code_simp

lemma str_int_1: "str_int 1 = ''1''"
  by code_simp

text \<open>
  C1. For a deck \<open>D\<close> of distinct names and a positive count \<open>n\<close> that is at most the size of
  the deck, \<open>generate_random_draw\<close> returns, and returns exactly \<open>n\<close> cards whose names are
  pairwise distinct and are names of \<open>D\<close>. The generator is any tape in the pool branch of
  \<open>random.sample\<close> and any fair tape in its selection-set branch, where the inner loop ends
  only if a new index comes up.
\<close>

theorem generate_random_draw_distinct:
  assumes "distinct D" "0 < n" "n \<le> int (length D)"
    and "length D \<le> setsize (nat n) \<or> fair (tape g) (length D)"
  shows "\<exists>cards g'. generate_random_draw n D g = Some (Inr cards, g')
           \<and> int (length cards) = n
           \<and> distinct (map name cards)
           \<and> set (map name cards) \<subseteq> set D"
proof -
  from sample_returns [OF assms(1) _ assms(3,4)] assms(2)
  obtain res g1 where s: "sample D n g = Some (Inr res, g1)" "int (length res) = n"
    "distinct res" "set res \<subseteq> set D" by auto
  obtain cards g2 where dl: "draw_loop res [] g1 = (cards, g2)"
    by (cases "draw_loop res [] g1")
  have nm: "map name cards = res" using draw_loop_names [OF dl] by simp
  have gd: "generate_random_draw n D g = Some (Inr cards, g2)"
    using assms(3) s(1) dl by (simp add: generate_random_draw_def)
  have "length cards = length res" using nm by (metis length_map)
  then have len: "int (length cards) = n" using s(2) by simp
  have "distinct (map name cards)" "set (map name cards) \<subseteq> set D"
    using s(3,4) by (simp_all only: nm)
  with gd len show ?thesis by blast
qed

text \<open>
  A deck of 22 cards and two cards drawn: the selection-set branch, on a tape that repeats
  every number once, so that the second card is drawn twice before it is new.
\<close>

theorem generate_random_draw_distinct_witness:
  "distinct [''a'', ''b'', ''c'', ''d'', ''e'', ''f'', ''g'', ''h'', ''i'', ''j'', ''k'', ''l'',
             ''m'', ''n'', ''o'', ''p'', ''q'', ''r'', ''s'', ''t'', ''u'', ''v'']
   \<and> fair (\<lambda>i. i div 2) 22
   \<and> (\<exists>cards g'.
         generate_random_draw 2
           [''a'', ''b'', ''c'', ''d'', ''e'', ''f'', ''g'', ''h'', ''i'', ''j'', ''k'', ''l'',
            ''m'', ''n'', ''o'', ''p'', ''q'', ''r'', ''s'', ''t'', ''u'', ''v'']
           \<lparr>tape = (\<lambda>i. i div 2), pos = 0\<rparr> = Some (Inr cards, g')
         \<and> int (length cards) = 2
         \<and> distinct (map name cards)
         \<and> set (map name cards)
             \<subseteq> set [''a'', ''b'', ''c'', ''d'', ''e'', ''f'', ''g'', ''h'', ''i'', ''j'', ''k'', ''l'',
                    ''m'', ''n'', ''o'', ''p'', ''q'', ''r'', ''s'', ''t'', ''u'', ''v''])"
proof -
  let ?D = "[''a'', ''b'', ''c'', ''d'', ''e'', ''f'', ''g'', ''h'', ''i'', ''j'', ''k'', ''l'',
             ''m'', ''n'', ''o'', ''p'', ''q'', ''r'', ''s'', ''t'', ''u'', ''v'']"
  have d: "distinct ?D" by simp
  have f: "fair (\<lambda>i. i div 2) 22"
    unfolding fair_def
  proof (intro allI impI)
    fix p v :: nat
    assume "v < 22"
    then have "p \<le> 2 * (22 * p + v) \<and> (2 * (22 * p + v)) div 2 mod 22 = v" by simp
    then show "\<exists>q\<ge>p. q div 2 mod 22 = v" by blast
  qed
  have len: "length ?D = 22" by simp
  have "fair (tape \<lparr>tape = (\<lambda>i. i div 2), pos = 0\<rparr>) (length ?D)"
    unfolding len using f by simp
  then have "length ?D \<le> setsize (nat 2)
             \<or> fair (tape \<lparr>tape = (\<lambda>i. i div 2), pos = 0\<rparr>) (length ?D)" ..
  from generate_random_draw_distinct [OF d _ _ this] len
  have "\<exists>cards g'.
          generate_random_draw 2 ?D \<lparr>tape = (\<lambda>i. i div 2), pos = 0\<rparr> = Some (Inr cards, g')
          \<and> int (length cards) = 2 \<and> distinct (map name cards)
          \<and> set (map name cards) \<subseteq> set ?D"
    by simp
  with d f show ?thesis by blast
qed

text \<open>
  C2. When more cards are asked for than the deck has, \<open>generate_random_draw\<close> raises its
  ValueError (the message says that the number of cards asked for exceeds the number of
  cards available): no list of cards is returned, \<open>random.sample\<close> is not called and the
  generator is left as it was.
\<close>

theorem generate_random_draw_insufficient:
  "num_cards > int (length available_cards) \<Longrightarrow>
   generate_random_draw num_cards available_cards g =
     Some (Inl (ValueError (insufficient_cards_message num_cards (length available_cards))), g)"
  by (simp add: generate_random_draw_def)

text \<open>Two cards from a deck of one: the second scenario of the specification.\<close>

theorem generate_random_draw_insufficient_witness:
  "(2::int) > int (length [''Fool''])
   \<and> generate_random_draw 2 [''Fool''] \<lparr>tape = (\<lambda>i. i), pos = 0\<rparr> =
       Some (Inl (ValueError ([CHR 0xE8, CHR 0xAF, CHR 0xB7, CHR 0xE6, CHR 0xB1,
         CHR 0x82, CHR 0xE7, CHR 0x9A, CHR 0x84, CHR 0xE7, CHR 0x89, CHR 0x8C, CHR 0xE6,
         CHR 0x95, CHR 0xB0] @ ''(2)'' @ [CHR 0xE8, CHR 0xB6, CHR 0x85, CHR 0xE8, CHR 0xBF,
         CHR 0x87, CHR 0xE4, CHR 0xBA, CHR 0x86, CHR 0xE5, CHR 0x8F, CHR 0xAF, CHR 0xE7,
         CHR 0x94, CHR 0xA8, CHR 0xE7, CHR 0x89, CHR 0x8C, CHR 0xE6, CHR 0x95, CHR 0xB0] @
         ''(1)'')),
             \<lparr>tape = (\<lambda>i. i), pos = 0\<rparr>)"
  using generate_random_draw_insufficient [of "[''Fool'']" 2 "\<lparr>tape = (\<lambda>i. i), pos = 0\<rparr>"]
  by (simp add: insufficient_cards_message_def str_int_2 str_int_1)

section \<open>Properties of the resolver\<close>

lemma prompt_loop_map:
  "prompt_loop card_meanings cs ds ss =
     (ds @ map (\<lambda>c. fst (card_lines card_meanings c)) cs,
      ss @ map (\<lambda>c. snd (card_lines card_meanings c)) cs)"
  by (induction cs arbitrary: ds ss) (auto split: prod.splits)

lemma prompt_loop_nth:
  "fst (prompt_loop card_meanings (before @ c # after) [] []) ! length before =
     fst (card_lines card_meanings c)"
  "snd (prompt_loop card_meanings (before @ c # after) [] []) ! length before =
     snd (card_lines card_meanings c)"
  by (simp_all add: prompt_loop_map nth_append)

lemma prepare_prompt_input_single:
  "prepare_prompt_input \<lparr>cards = [c], user_context = q\<rparr> card_meanings =
     [''card_details'' \<mapsto> fst (card_lines card_meanings c),
      ''context'' \<mapsto> q,
      ''symbolism'' \<mapsto> snd (card_lines card_meanings c)]"
  by (simp add: prepare_prompt_input_def prompt_loop_map)

lemma card_lines_present:
  "card_meanings (name c) = Some meaning_data \<Longrightarrow>
   card_lines card_meanings c =
     (''**'' @ name c @ ''** (''
        @ (if is_reversed c = Some True then position_reversed else position_upright)
        @ ''): ''
        @ (if is_reversed c = Some True
           then dict_get meaning_data ''reversed'' reversed_meaning_unknown
           else dict_get meaning_data ''upright'' upright_meaning_unknown),
      ''**'' @ name c @ ''**: '' @ dict_get meaning_data ''symbolism'' symbolism_unknown)"
  by (cases "is_reversed c") (auto simp: card_lines_def Let_def)


text \<open>
  C3, as amended. For a drawn card whose name is in the table, the line appended to the
  details is \<open>**name** (position): meaning\<close>: the name between asterisks, the position
  label of the source (the Chinese word for reversed or for upright, not an English one) and
  the meaning read from the table. For a draw of one card this line is \<open>card_details\<close>.
\<close>

theorem card_detail_line:
  assumes "card_meanings (name c) = Some meaning_data"
  shows "fst (prompt_loop card_meanings (before @ c # after) [] []) ! length before =
           ''**'' @ name c @ ''** (''
           @ (if is_reversed c = Some True then position_reversed else position_upright)
           @ ''): ''
           @ (if is_reversed c = Some True
              then dict_get meaning_data ''reversed'' reversed_meaning_unknown
              else dict_get meaning_data ''upright'' upright_meaning_unknown)
         \<and> prepare_prompt_input \<lparr>cards = [c], user_context = q\<rparr> card_meanings ''card_details'' =
             Some (''**'' @ name c @ ''** (''
                   @ (if is_reversed c = Some True then position_reversed else position_upright)
                   @ ''): ''
                   @ (if is_reversed c = Some True
                      then dict_get meaning_data ''reversed'' reversed_meaning_unknown
                      else dict_get meaning_data ''upright'' upright_meaning_unknown))"
  by (simp add: prompt_loop_nth prepare_prompt_input_single card_lines_present [of card_meanings c meaning_data, OF assms])

text \<open>
  The first scenario of the specification: the deck is the Fool alone, drawn upright. The
  details are \<open>**Fool** (P): new beginnings\<close>, where \<open>P\<close> is the Chinese label.
\<close>

theorem card_detail_line_witness:
  "[''Fool'' \<mapsto> [''upright'' \<mapsto> ''new beginnings'', ''reversed'' \<mapsto> ''recklessness'',
                 ''symbolism'' \<mapsto> ''innocence'']]
     (name \<lparr>name = ''Fool'', is_reversed = Some False\<rparr>)
   = Some [''upright'' \<mapsto> ''new beginnings'', ''reversed'' \<mapsto> ''recklessness'',
           ''symbolism'' \<mapsto> ''innocence'']
   \<and> prepare_prompt_input
       \<lparr>cards = [\<lparr>name = ''Fool'', is_reversed = Some False\<rparr>], user_context = ''What now?''\<rparr>
       [''Fool'' \<mapsto> [''upright'' \<mapsto> ''new beginnings'', ''reversed'' \<mapsto> ''recklessness'',
                     ''symbolism'' \<mapsto> ''innocence'']]
       ''card_details''
     = Some (''**Fool** ('' @ [CHR 0xE6, CHR 0xAD, CHR 0xA3, CHR 0xE4, CHR 0xBD,
       CHR 0x8D] @ ''): new beginnings'')"
  using card_detail_line
    [of "[''Fool'' \<mapsto> [''upright'' \<mapsto> ''new beginnings'', ''reversed'' \<mapsto> ''recklessness'',
                        ''symbolism'' \<mapsto> ''innocence'']]"
        "\<lparr>name = ''Fool'', is_reversed = Some False\<rparr>"
        "[''upright'' \<mapsto> ''new beginnings'', ''reversed'' \<mapsto> ''recklessness'',
          ''symbolism'' \<mapsto> ''innocence'']"
        "[]" "[]" "''What now?''"]
  by (simp add: dict_get_def position_upright_def)

text \<open>
  The claim as the specification states it fails on the same scenario: the details are not
  \<open>**Fool** (upright): new beginnings\<close>.
\<close>

theorem card_detail_line_counterexample:
  "prepare_prompt_input
     \<lparr>cards = [\<lparr>name = ''Fool'', is_reversed = Some False\<rparr>], user_context = ''What now?''\<rparr>
     [''Fool'' \<mapsto> [''upright'' \<mapsto> ''new beginnings'', ''reversed'' \<mapsto> ''recklessness'',
                   ''symbolism'' \<mapsto> ''innocence'']]
     ''card_details''
   \<noteq> Some ''**Fool** (upright): new beginnings''"
  by (simp add: prepare_prompt_input_single card_lines_def dict_get_def position_upright_def)

text \<open>
  C4. For a drawn card whose name is in the table, the resolver should put the fixed
  placeholder in the place of a meaning (or a symbolism) that is empty or missing. It does
  not for an empty one: the placeholders are the defaults of \<open>get\<close>, which stand in for a
  missing key only, and the table that the application loads holds all three keys for every
  card, with the empty string for an empty cell. For the Fool with an empty upright meaning,
  drawn upright, the details end after the colon; the placeholder for an unknown upright
  meaning is not there.
\<close>

theorem empty_meaning_no_placeholder:
  "prepare_prompt_input
     \<lparr>cards = [\<lparr>name = ''Fool'', is_reversed = Some False\<rparr>], user_context = ''What now?''\<rparr>
     [''Fool'' \<mapsto> [''upright'' \<mapsto> '''', ''reversed'' \<mapsto> ''recklessness'',
                   ''symbolism'' \<mapsto> ''innocence'']]
     ''card_details''
   = Some (''**Fool** ('' @ position_upright @ ''): '')
   \<and> prepare_prompt_input
       \<lparr>cards = [\<lparr>name = ''Fool'', is_reversed = Some False\<rparr>], user_context = ''What now?''\<rparr>
       [''Fool'' \<mapsto> [''upright'' \<mapsto> '''', ''reversed'' \<mapsto> ''recklessness'',
                     ''symbolism'' \<mapsto> ''innocence'']]
       ''card_details''
     \<noteq> Some (''**Fool** ('' @ position_upright @ ''): '' @ upright_meaning_unknown)"
  by (simp add: prepare_prompt_input_single card_lines_def dict_get_def
      upright_meaning_unknown_def)





section \<open>Properties of the messages\<close>

lemma prepend_prepend: "prepend a (prepend b r) = prepend (a @ b) r"
  by (cases r) simp_all

lemma prepend_Inr_iff: "prepend a r = Inr t \<longleftrightarrow> (\<exists>u. r = Inr u \<and> t = a @ u)"
  by (cases r) auto

lemma format_from_literal:
  "CHR ''{'' \<notin> set s \<Longrightarrow> CHR ''}'' \<notin> set s \<Longrightarrow>
   format_from kwargs None (s @ rest) = prepend s (format_from kwargs None rest)"
proof (induction s)
  case Nil
  show ?case by (cases "format_from kwargs None rest") simp_all
next
  case (Cons c s)
  then have "c \<noteq> CHR ''{''" "c \<noteq> CHR ''}''" by auto
  with Cons show ?case by (simp add: prepend_prepend)
qed

lemma format_from_card_details:
  "kwargs ''card_details'' = Some v \<Longrightarrow>
   format_from kwargs None (''{card_details}'' @ rest) = prepend v (format_from kwargs None rest)"
  by simp

lemma format_from_context:
  "kwargs ''context'' = Some v \<Longrightarrow>
   format_from kwargs None (''{context}'' @ rest) = prepend v (format_from kwargs None rest)"
  by simp

lemma format_from_symbolism:
  "kwargs ''symbolism'' = Some v \<Longrightarrow>
   format_from kwargs None (''{symbolism}'' @ rest) = prepend v (format_from kwargs None rest)"
  by simp

lemma template_segments_plain:
  "CHR ''{'' \<notin> set template_before_card_details"
  "CHR ''}'' \<notin> set template_before_card_details"
  "CHR ''{'' \<notin> set template_before_context"
  "CHR ''}'' \<notin> set template_before_context"
  "CHR ''{'' \<notin> set template_before_symbolism"
  "CHR ''}'' \<notin> set template_before_symbolism"
  "CHR ''{'' \<notin> set template_after_symbolism"
  "CHR ''}'' \<notin> set template_after_symbolism"
  by (simp_all add: template_before_card_details_def template_before_context_def
      template_before_symbolism_def template_after_symbolism_def)

lemma format_system_message_template:
  assumes "x ''card_details'' = Some cd" "x ''context'' = Some q" "x ''symbolism'' = Some sy"
  shows "format system_message_template x =
           Inr (template_before_card_details @ cd @ template_before_context @ q
                @ template_before_symbolism @ sy @ template_after_symbolism)"
proof -
  have last: "format_from x None template_after_symbolism = Inr template_after_symbolism"
    using format_from_literal [of template_after_symbolism x "[]"]
    by (simp add: template_segments_plain)
  have "format_from x None (''{symbolism}'' @ template_after_symbolism) =
          Inr (sy @ template_after_symbolism)"
    by (simp only: format_from_symbolism [of x sy, OF assms(3)] last prepend.simps)
  then have "format_from x None
               (template_before_symbolism @ ''{symbolism}'' @ template_after_symbolism) =
             Inr (template_before_symbolism @ sy @ template_after_symbolism)"
    by (simp only: format_from_literal [OF template_segments_plain(5,6)] prepend.simps)
  then have "format_from x None
               (''{context}'' @ template_before_symbolism @ ''{symbolism}''
                @ template_after_symbolism) =
             Inr (q @ template_before_symbolism @ sy @ template_after_symbolism)"
    by (simp only: format_from_context [of x q, OF assms(2)] prepend.simps)
  then have "format_from x None
               (template_before_context @ ''{context}'' @ template_before_symbolism
                @ ''{symbolism}'' @ template_after_symbolism) =
             Inr (template_before_context @ q @ template_before_symbolism @ sy
                  @ template_after_symbolism)"
    by (simp only: format_from_literal [OF template_segments_plain(3,4)] prepend.simps)
  then have "format_from x None
               (''{card_details}'' @ template_before_context @ ''{context}''
                @ template_before_symbolism @ ''{symbolism}'' @ template_after_symbolism) =
             Inr (cd @ template_before_context @ q @ template_before_symbolism @ sy
                  @ template_after_symbolism)"
    by (simp only: format_from_card_details [of x cd, OF assms(1)] prepend.simps)
  then have "format_from x None
               (template_before_card_details @ ''{card_details}'' @ template_before_context
                @ ''{context}'' @ template_before_symbolism @ ''{symbolism}''
                @ template_after_symbolism) =
             Inr (template_before_card_details @ cd @ template_before_context @ q
                  @ template_before_symbolism @ sy @ template_after_symbolism)"
    by (simp only: format_from_literal [OF template_segments_plain(1,2)] prepend.simps)
  then show ?thesis
    by (simp only: format_def system_message_template_def)
qed

lemma format_prompt_analysis: "format prompt_analysis [''context'' \<mapsto> q] = Inr q"
  by (simp add: format_def prompt_analysis_def)

lemma split_on_not_Nil: "split_on c s \<noteq> []"
  by (induction s) (auto split: list.splits)

lemma split_on_hd_prefix: "prefix (hd (split_on c s)) s"
  by (induction s) (auto split: list.splits)

lemma split_on_sublist: "l \<in> set (split_on c s) \<Longrightarrow> sublist l s"
proof (induction s arbitrary: l)
  case Nil
  then show ?case by simp
next
  case (Cons x xs)
  obtain l0 ls where sp: "split_on c xs = l0 # ls"
    using split_on_not_Nil [of c xs] by (cases "split_on c xs") auto
  have tail: "l' \<in> set (split_on c xs) \<Longrightarrow> sublist l' (x # xs)" for l'
    using Cons.IH [of l'] by (simp add: sublist_Cons_right)
  show ?case
  proof (cases "x = c")
    case True
    with Cons.prems tail show ?thesis by auto
  next
    case False
    with Cons.prems sp have "l = x # l0 \<or> l \<in> set ls" by simp
    then show ?thesis
    proof
      assume "l = x # l0"
      moreover have "prefix l0 xs" using split_on_hd_prefix [of c xs] sp by simp
      ultimately have "prefix l (x # xs)" by simp
      then show ?thesis by (rule prefix_imp_sublist)
    next
      assume "l \<in> set ls"
      then show ?thesis using tail sp by simp
    qed
  qed
qed

lemma sublist_middle: "sublist m (a @ m @ b)"
  by (rule sublist_appendI)

text \<open>
  C6. For every dict \<open>x\<close> with the keys \<open>card_details\<close>, \<open>context\<close> and \<open>symbolism\<close>, the
  stage of the chain that builds the request returns two messages: a system message that is
  the template with the three texts put in as they are, and a user message that is the
  context. Both texts, and with them each of their lines, are substrings of the system
  message.
\<close>

theorem build_messages_verbatim:
  assumes "x ''card_details'' = Some cd" "x ''context'' = Some q" "x ''symbolism'' = Some sy"
  shows "\<exists>system_content.
           build_messages x = Inr [SystemMessage system_content, HumanMessage q]
           \<and> system_content =
               template_before_card_details @ cd @ template_before_context @ q
               @ template_before_symbolism @ sy @ template_after_symbolism
           \<and> sublist cd system_content
           \<and> sublist sy system_content
           \<and> (\<forall>l \<in> set (split_on (CHR 0x0A) cd) \<union> set (split_on (CHR 0x0A) sy).
                 sublist l system_content)"
proof -
  let ?s = "template_before_card_details @ cd @ template_before_context @ q
            @ template_before_symbolism @ sy @ template_after_symbolism"
  have b: "build_messages x = Inr [SystemMessage ?s, HumanMessage q]"
    by (simp add: build_messages_def format_system_message_template [OF assms]
        format_prompt_analysis assms(2))
  have c: "sublist cd ?s"
    by (rule sublist_middle)
  have "sublist sy ((template_before_card_details @ cd @ template_before_context @ q
                     @ template_before_symbolism) @ sy @ template_after_symbolism)"
    by (rule sublist_middle)
  then have s: "sublist sy ?s" by simp
  have "sublist l ?s" if "l \<in> set (split_on (CHR 0x0A) cd) \<union> set (split_on (CHR 0x0A) sy)" for l
  proof -
    from that have "sublist l cd \<or> sublist l sy" by (auto dest: split_on_sublist)
    with c s show ?thesis by (auto intro: sublist_order.order_trans)
  qed
  with b c s show ?thesis by blast
qed

text \<open>
  Details of two lines: each line, the details as a whole and the symbolism are in the
  system message, and the user message is the question.
\<close>

theorem build_messages_verbatim_witness:
  "\<exists>system_content.
     build_messages [''card_details'' \<mapsto> ''**A** (x): a'' @ [CHR 0x0A] @ ''**B** (y): b'',
                     ''context'' \<mapsto> ''What now?'',
                     ''symbolism'' \<mapsto> ''**A**: s'']
       = Inr [SystemMessage system_content, HumanMessage ''What now?'']
     \<and> sublist ''**A** (x): a'' system_content
     \<and> sublist ''**B** (y): b'' system_content
     \<and> sublist ''**A**: s'' system_content"
proof -
  let ?x = "[''card_details'' \<mapsto> ''**A** (x): a'' @ [CHR 0x0A] @ ''**B** (y): b'',
             ''context'' \<mapsto> ''What now?'',
             ''symbolism'' \<mapsto> ''**A**: s'']"
  have k: "?x ''card_details'' = Some (''**A** (x): a'' @ [CHR 0x0A] @ ''**B** (y): b'')"
          "?x ''context'' = Some ''What now?''"
          "?x ''symbolism'' = Some ''**A**: s''"
    by simp_all
  have l: "''**A** (x): a'' \<in> set (split_on (CHR 0x0A) (''**A** (x): a'' @ [CHR 0x0A] @ ''**B** (y): b''))"
          "''**B** (y): b'' \<in> set (split_on (CHR 0x0A) (''**A** (x): a'' @ [CHR 0x0A] @ ''**B** (y): b''))"
    by simp_all
  from build_messages_verbatim [OF k] l show ?thesis
    by (metis UnI1)
qed

section \<open>Properties of the client\<close>

text \<open>
  C7. Without an API key the application should go on with a fallback responder whose every
  call returns the apology around the configuration error. It does not get that far. With
  no \<open>DASHSCOPE_API_KEY\<close> in the environment, or an empty one, the block that configures
  the model raises its ValueError and the handler puts \<open>FallbackLLM(str(e))\<close> in the place of
  the client; but the chain is then built with this object as its last stage, and a
  \<open>FallbackLLM\<close> is nothing that langchain can make a Runnable of: building the chain
  raises TypeError while the module is loaded, and \<open>invoke\<close> of the fallback is never
  called.
\<close>

theorem fallback_breaks_the_chain:
  "configure_llm Map.empty = FallbackLLM env_key_missing
   \<and> analyzer (configure_llm Map.empty) = Inl (TypeError unsupported_type)
   \<and> configure_llm [''DASHSCOPE_API_KEY'' \<mapsto> ''''] = FallbackLLM env_key_missing
   \<and> analyzer (configure_llm [''DASHSCOPE_API_KEY'' \<mapsto> '''']) = Inl (TypeError unsupported_type)"
  by (simp add: configure_llm_def truthy_def analyzer_def coerce_to_runnable_def)

lemma call_failed_text_marker:
  "sublist (''API'' @ [CHR 0xE8, CHR 0xB0, CHR 0x83, CHR 0xE7, CHR 0x94, CHR 0xA8,
    CHR 0xE5, CHR 0xA4, CHR 0xB1, CHR 0xE8, CHR 0xB4,
    CHR 0xA5]) (call_failed_text code msg)"
  "sublist (str_int code) (call_failed_text code msg)"
proof -
  have "call_failed_text code msg =
          ''API'' @ ([CHR 0xE8, CHR 0xB0, CHR 0x83, CHR 0xE7, CHR 0x94, CHR 0xA8,
            CHR 0xE5, CHR 0xA4, CHR 0xB1, CHR 0xE8, CHR 0xB4, CHR 0xA5]) @ ('': HTTP'' @
            [CHR 0xE7, CHR 0x8A, CHR 0xB6, CHR 0xE6, CHR 0x80, CHR 0x81, CHR 0xE7,
            CHR 0xA0, CHR 0x81] @ '' '' @ str_int code @ '', '' @ [CHR 0xE9, CHR 0x94,
            CHR 0x99, CHR 0xE8, CHR 0xAF, CHR 0xAF, CHR 0xE4, CHR 0xBF, CHR 0xA1, CHR 0xE6,
            CHR 0x81, CHR 0xAF] @ '': '' @ msg)"
    by (simp add: call_failed_text_def)
  then have "call_failed_text code msg =
          [] @ (''API'' @ [CHR 0xE8, CHR 0xB0, CHR 0x83, CHR 0xE7, CHR 0x94, CHR 0xA8,
            CHR 0xE5, CHR 0xA4, CHR 0xB1, CHR 0xE8, CHR 0xB4, CHR 0xA5]) @ ('': HTTP'' @
            [CHR 0xE7, CHR 0x8A, CHR 0xB6, CHR 0xE6, CHR 0x80, CHR 0x81, CHR 0xE7,
            CHR 0xA0, CHR 0x81] @ '' '' @ str_int code @ '', '' @ [CHR 0xE9, CHR 0x94,
            CHR 0x99, CHR 0xE8, CHR 0xAF, CHR 0xAF, CHR 0xE4, CHR 0xBF, CHR 0xA1, CHR 0xE6,
            CHR 0x81, CHR 0xAF] @ '': '' @ msg)"
    by simp
  then show "sublist (''API'' @ [CHR 0xE8, CHR 0xB0, CHR 0x83, CHR 0xE7, CHR 0x94,
    CHR 0xA8, CHR 0xE5, CHR 0xA4, CHR 0xB1, CHR 0xE8, CHR 0xB4,
    CHR 0xA5]) (call_failed_text code msg)"
    by (metis sublist_appendI)
  have "call_failed_text code msg =
          (''API'' @ [CHR 0xE8, CHR 0xB0, CHR 0x83, CHR 0xE7, CHR 0x94, CHR 0xA8,
            CHR 0xE5, CHR 0xA4, CHR 0xB1, CHR 0xE8, CHR 0xB4, CHR 0xA5] @ '': HTTP'' @
            [CHR 0xE7, CHR 0x8A, CHR 0xB6, CHR 0xE6, CHR 0x80, CHR 0x81, CHR 0xE7,
            CHR 0xA0, CHR 0x81] @ '' '') @ str_int code @ ('', '' @ [CHR 0xE9, CHR 0x94,
            CHR 0x99, CHR 0xE8, CHR 0xAF, CHR 0xAF, CHR 0xE4, CHR 0xBF, CHR 0xA1, CHR 0xE6,
            CHR 0x81, CHR 0xAF] @ '': '' @ msg)"
    by (simp add: call_failed_text_def)
  then show "sublist (str_int code) (call_failed_text code msg)"
    by (metis sublist_appendI)
qed

text \<open>
  C8, as amended. When the backend answers with a status other than 200, \<open>_generate\<close>
  returns one generation whose text is the "API call failed" text with the status code and
  the message of the response. When the call raises, or the response has the status 200
  and its content cannot be read (the choices are \<open>None\<close> or empty, or the first choice has
  no message or no content), it returns one generation whose text is the "API call
  exception" text with the text of the exception: another marker, and no status.
\<close>

theorem generate_failure_text:
  "(call (generation_request self messages kwargs) = Returns r \<and> status_code r \<noteq> 200
    \<longrightarrow> generate self call messages kwargs =
          LLMResult [[Generation (call_failed_text (status_code r) (get_message r))]]
        \<and> sublist (''API'' @ [CHR 0xE8, CHR 0xB0, CHR 0x83, CHR 0xE7, CHR 0x94,
          CHR 0xA8, CHR 0xE5, CHR 0xA4, CHR 0xB1, CHR 0xE8, CHR 0xB4,
          CHR 0xA5]) (call_failed_text (status_code r) (get_message r))
        \<and> sublist (str_int (status_code r)) (call_failed_text (status_code r) (get_message r)))
   \<and> (call (generation_request self messages kwargs) = Raises e
      \<longrightarrow> generate self call messages kwargs = LLMResult [[Generation (call_exception_text e)]])
   \<and> (call (generation_request self messages kwargs) = Returns r
        \<and> status_code r = 200 \<and> response_output r = Value out \<and> output_choices out = Null
      \<longrightarrow> generate self call messages kwargs =
            LLMResult [[Generation (call_exception_text
                          ([CHR 0x27] @ ''NoneType'' @ [CHR 0x27] @
                            '' object is not subscriptable''))]])
   \<and> (call (generation_request self messages kwargs) = Returns r
        \<and> status_code r = 200 \<and> response_output r = Value out
        \<and> output_choices out = Value choices \<and> first_content choices = Inl err
      \<longrightarrow> generate self call messages kwargs =
            LLMResult [[Generation (call_exception_text (str_of_error err))]])"
proof (intro conjI impI)
  assume "call (generation_request self messages kwargs) = Returns r \<and> status_code r \<noteq> 200"
  then show "generate self call messages kwargs =
          LLMResult [[Generation (call_failed_text (status_code r) (get_message r))]]"
    by (simp add: generate_def)
next
  show "sublist (''API'' @ [CHR 0xE8, CHR 0xB0, CHR 0x83, CHR 0xE7, CHR 0x94, CHR 0xA8,
    CHR 0xE5, CHR 0xA4, CHR 0xB1, CHR 0xE8, CHR 0xB4,
    CHR 0xA5]) (call_failed_text (status_code r) (get_message r))"
    by (rule call_failed_text_marker)
next
  show "sublist (str_int (status_code r)) (call_failed_text (status_code r) (get_message r))"
    by (rule call_failed_text_marker)
next
  assume "call (generation_request self messages kwargs) = Raises e"
  then show "generate self call messages kwargs = LLMResult [[Generation (call_exception_text e)]]"
    by (simp add: generate_def)
next
  assume "call (generation_request self messages kwargs) = Returns r
        \<and> status_code r = 200 \<and> response_output r = Value out \<and> output_choices out = Null"
  then show "generate self call messages kwargs =
            LLMResult [[Generation (call_exception_text
                          ([CHR 0x27] @ ''NoneType'' @ [CHR 0x27] @
                            '' object is not subscriptable''))]]"
    by (simp add: generate_def)
next
  assume "call (generation_request self messages kwargs) = Returns r
        \<and> status_code r = 200 \<and> response_output r = Value out
        \<and> output_choices out = Value choices \<and> first_content choices = Inl err"
  then show "generate self call messages kwargs =
            LLMResult [[Generation (call_exception_text (str_of_error err))]]"
    by (simp add: generate_def)
qed

lemma str_int_500: "str_int 500 = ''500''"
  by code_simp

text \<open>
  Four answers of the backend to the same request: an error response with the status 500
  and a message, an exception, and two responses with the status 200 whose choices are
  \<open>None\<close> and empty.
\<close>

theorem generate_failure_text_witness:
  "generate
     \<lparr>api_key = ''sk-test'', model = ''qwen-plus'', temperature = 8 / 10, top_p = 8 / 10,
      max_tokens = 2000\<rparr>
     (\<lambda>_. Returns \<lparr>status_code = 500, response_message = Value ''Internal Server Error'',
                    response_output = Null\<rparr>)
     [SystemMessage ''s'', HumanMessage ''q'']
     \<lparr>kw_max_tokens = None, kw_repetition_penalty = None\<rparr>
   = LLMResult [[Generation (call_failed_text 500 ''Internal Server Error'')]]
   \<and> sublist (''API'' @ [CHR 0xE8, CHR 0xB0, CHR 0x83, CHR 0xE7, CHR 0x94, CHR 0xA8,
     CHR 0xE5, CHR 0xA4, CHR 0xB1, CHR 0xE8, CHR 0xB4,
     CHR 0xA5]) (call_failed_text 500 ''Internal Server Error'')
   \<and> sublist ''500'' (call_failed_text 500 ''Internal Server Error'')
   \<and> generate
       \<lparr>api_key = ''sk-test'', model = ''qwen-plus'', temperature = 8 / 10, top_p = 8 / 10,
        max_tokens = 2000\<rparr>
       (\<lambda>_. Raises ''timed out'')
       [SystemMessage ''s'', HumanMessage ''q'']
       \<lparr>kw_max_tokens = None, kw_repetition_penalty = None\<rparr>
     = LLMResult [[Generation (call_exception_text ''timed out'')]]
   \<and> generate
       \<lparr>api_key = ''sk-test'', model = ''qwen-plus'', temperature = 8 / 10, top_p = 8 / 10,
        max_tokens = 2000\<rparr>
       (\<lambda>_. Returns \<lparr>status_code = 200, response_message = Value '''',
                      response_output = Value \<lparr>output_choices = Null\<rparr>\<rparr>)
       [SystemMessage ''s'', HumanMessage ''q'']
       \<lparr>kw_max_tokens = None, kw_repetition_penalty = None\<rparr>
     = LLMResult [[Generation (call_exception_text ([CHR 0x27] @ ''NoneType'' @
       [CHR 0x27] @ '' object is not subscriptable''))]]
   \<and> generate
       \<lparr>api_key = ''sk-test'', model = ''qwen-plus'', temperature = 8 / 10, top_p = 8 / 10,
        max_tokens = 2000\<rparr>
       (\<lambda>_. Returns \<lparr>status_code = 200, response_message = Value '''',
                      response_output = Value \<lparr>output_choices = Value []\<rparr>\<rparr>)
       [SystemMessage ''s'', HumanMessage ''q'']
       \<lparr>kw_max_tokens = None, kw_repetition_penalty = None\<rparr>
     = LLMResult [[Generation (call_exception_text ''list index out of range'')]]"
proof -
  let ?self = "\<lparr>api_key = ''sk-test'', model = ''qwen-plus'', temperature = 8 / 10,
                top_p = 8 / 10, max_tokens = 2000\<rparr>"
  let ?messages = "[SystemMessage ''s'', HumanMessage ''q'']"
  let ?kwargs = "\<lparr>kw_max_tokens = None, kw_repetition_penalty = None\<rparr>"
  let ?r500 = "\<lparr>status_code = 500, response_message = Value ''Internal Server Error'',
                response_output = Null\<rparr>"
  let ?none = "\<lparr>output_choices = (Null :: choice list entry)\<rparr>"
  let ?empty = "\<lparr>output_choices = Value ([] :: choice list)\<rparr>"
  let ?r200n = "\<lparr>status_code = 200, response_message = Value '''',
                 response_output = Value ?none\<rparr>"
  let ?r200e = "\<lparr>status_code = 200, response_message = Value '''',
                 response_output = Value ?empty\<rparr>"
  have a: "generate ?self (\<lambda>_. Returns ?r500) ?messages ?kwargs =
             LLMResult [[Generation (call_failed_text 500 ''Internal Server Error'')]]
           \<and> sublist (''API'' @ [CHR 0xE8, CHR 0xB0, CHR 0x83, CHR 0xE7, CHR 0x94,
             CHR 0xA8, CHR 0xE5, CHR 0xA4, CHR 0xB1, CHR 0xE8, CHR 0xB4,
             CHR 0xA5]) (call_failed_text 500 ''Internal Server Error'')
           \<and> sublist (str_int 500) (call_failed_text 500 ''Internal Server Error'')"
    using generate_failure_text
      [of "\<lambda>_. Returns ?r500" ?self ?messages ?kwargs ?r500]
    by (simp add: get_message_def)
  have b: "generate ?self (\<lambda>_. Raises ''timed out'') ?messages ?kwargs =
             LLMResult [[Generation (call_exception_text ''timed out'')]]"
    using generate_failure_text
      [of "\<lambda>_. Raises ''timed out''" ?self ?messages ?kwargs _ "''timed out''"]
    by simp
  have c: "generate ?self (\<lambda>_. Returns ?r200n) ?messages ?kwargs =
             LLMResult [[Generation (call_exception_text
                           ([CHR 0x27] @ ''NoneType'' @ [CHR 0x27] @
                             '' object is not subscriptable''))]]"
    using generate_failure_text
      [of "\<lambda>_. Returns ?r200n" ?self ?messages ?kwargs ?r200n _ ?none]
    by simp
  have d: "generate ?self (\<lambda>_. Returns ?r200e) ?messages ?kwargs =
             LLMResult [[Generation (call_exception_text ''list index out of range'')]]"
    using generate_failure_text
      [of "\<lambda>_. Returns ?r200e" ?self ?messages ?kwargs ?r200e _ ?empty "[]"
          "IndexError ''list index out of range''"]
    by (simp add: first_content_def)
  from a b c d show ?thesis by (simp only: str_int_500)
qed

text \<open>
  The claim as the specification states it fails when the call raises: the text is the
  "API call exception" text, which does not hold the "API call failed" marker.
\<close>

theorem generate_exception_counterexample:
  "generate
     \<lparr>api_key = ''sk-test'', model = ''qwen-plus'', temperature = 8 / 10, top_p = 8 / 10,
      max_tokens = 2000\<rparr>
     (\<lambda>_. Raises ''timed out'')
     [SystemMessage ''s'', HumanMessage ''q'']
     \<lparr>kw_max_tokens = None, kw_repetition_penalty = None\<rparr>
   = LLMResult [[Generation (''API'' @ [CHR 0xE8, CHR 0xB0, CHR 0x83, CHR 0xE7, CHR 0x94,
     CHR 0xA8, CHR 0xE5, CHR 0xBC, CHR 0x82, CHR 0xE5, CHR 0xB8, CHR 0xB8] @
     '': timed out'')]]
   \<and> \<not> sublist (''API'' @ [CHR 0xE8, CHR 0xB0, CHR 0x83, CHR 0xE7, CHR 0x94,
     CHR 0xA8, CHR 0xE5, CHR 0xA4, CHR 0xB1, CHR 0xE8, CHR 0xB4, CHR 0xA5]) (''API'' @
     [CHR 0xE8, CHR 0xB0, CHR 0x83, CHR 0xE7, CHR 0x94, CHR 0xA8, CHR 0xE5, CHR 0xBC,
     CHR 0x82, CHR 0xE5, CHR 0xB8, CHR 0xB8] @ '': timed out'')"
  by (simp add: generate_def call_exception_text_def sublist_Cons_right prefix_Cons)

section \<open>The caption of a drawn card\<close>

text \<open>
  C9. The caption should carry the marker \<open>(R)\<close> only for a card that is reversed. It does
  not: the label tests whether the key \<open>is_reversed\<close> is in the dict, and
  \<open>generate_random_draw\<close> always puts it there. A draw of the Fool on a tape whose number
  for \<open>random()\<close> is one half gives an upright card; its caption is \<open>Fool (R)\<close>, while the
  image, whose test reads the value, is not turned.
\<close>

theorem caption_marks_upright_card:
  "generate_random_draw 1 [''Fool''] \<lparr>tape = (\<lambda>i. 2 ^ 52), pos = 0\<rparr> =
     Some (Inr [\<lparr>name = ''Fool'', is_reversed = Some False\<rparr>],
           \<lparr>tape = (\<lambda>i. 2 ^ 52), pos = 2\<rparr>)
   \<and> caption \<lparr>name = ''Fool'', is_reversed = Some False\<rparr> = ''Fool (R)''
   \<and> \<not> image_rotated \<lparr>name = ''Fool'', is_reversed = Some False\<rparr>"
  by (simp add: generate_random_draw_def sample_def setsize_def randbelow_def random_def
      caption_def reversed_label_def image_rotated_def)

end
